theory Spec2Isabelle
  imports Complex_Main
begin

section \<open>Linear-programming inverse reinforcement learning: the LP formulators\<close>

text \<open>
  A shallow embedding of \<^verbatim>\<open>irl_methods/linear_programming.py\<close>: the three formulators
  \<^verbatim>\<open>linear_programming\<close>, \<^verbatim>\<open>large_linear_programming\<close> and
  \<^verbatim>\<open>trajectory_linear_programming\<close>, with their nested constraint blocks.

  Floating-point numbers are modelled by the reals, with the rounding written out where
  the exact value of a result matters. Every Python exception is a value of type
  \<open>error\<close>; a function that can raise returns \<open>error + 'a\<close> (\<open>Inl\<close> the error).
\<close>

subsection \<open>Errors\<close>

text \<open>
  The first six constructors are the Python exceptions that statements of the source can
  raise. \<open>DegenerateNormalization\<close> is a failure kind that no statement of the source
  raises; it is here so that its absence can be stated.
\<close>

datatype error =
    ValueError | IndexError | TypeError | ZeroDivisionError | AssertionError | LinAlgError
  | DegenerateNormalization
  | NotANumber

text \<open>
  \<open>NotANumber\<close> is not an exception either: numpy's \<^verbatim>\<open>0.0 / 0\<close> warns and yields nan,
  a value the reals do not have. The model marks such a result with \<open>NotANumber\<close> and
  does not follow the computation beyond it.
\<close>

definition bind_err :: "error + 'a \<Rightarrow> ('a \<Rightarrow> error + 'b) \<Rightarrow> error + 'b" where
  "bind_err m f = (case m of Inl e \<Rightarrow> Inl e | Inr v \<Rightarrow> f v)"

text \<open>A \<^verbatim>\<open>for\<close> loop over a list whose body may raise.\<close>

fun for_each :: "('i \<Rightarrow> 's \<Rightarrow> error + 's) \<Rightarrow> 'i list \<Rightarrow> 's \<Rightarrow> error + 's" where
  "for_each f [] s = Inr s"
| "for_each f (i # is) s = bind_err (f i s) (for_each f is)"

subsection \<open>Floating-point rounding\<close>

text \<open>
  Rounding to the nearest integer, a tie to the even one: Python's \<^verbatim>\<open>round\<close> of a float
  and the rule of IEEE-754 arithmetic.
\<close>

definition py_round :: "real \<Rightarrow> int" where
  "py_round v =
     (let f = \<lfloor>v\<rfloor>; r = v - of_int f in
      if r < 1 / 2 then f else if r > 1 / 2 then f + 1 else if even f then f else f + 1)"

definition pow2 :: "int \<Rightarrow> real" where
  "pow2 e = (if 0 \<le> e then 2 ^ nat e else 1 / 2 ^ nat (- e))"

text \<open>
  The double nearest to a real: with \<open>2 ^ e \<le> |x| < 2 ^ (e + 1)\<close>, the significand
  \<open>|x| / 2 ^ e\<close> is rounded to 52 binary places. Overflow and subnormal numbers are left
  aside.
\<close>

definition round_double :: "real \<Rightarrow> real" where
  "round_double x =
     (if x = 0 then 0
      else let e = \<lfloor>log 2 \<bar>x\<bar>\<rfloor>
           in sgn x * of_int (py_round (\<bar>x\<bar> * pow2 (52 - e))) * pow2 (e - 52))"

text \<open>
  Most of the model computes over the reals. In the rescaling of the tabular formulator,
  where the exact value of a floating-point result matters, every arithmetic operation is
  followed by its rounding \<open>fl\<close>, a parameter of the formulator: \<open>round_double\<close> for the
  doubles of the machine, the identity for exact arithmetic.
\<close>

subsection \<open>Two-dimensional numpy arrays\<close>

text \<open>
  A 2-d array is its list of rows together with its number of columns (an array with no
  row still has a column count, as \<^verbatim>\<open>np.zeros(shape=[0, n])\<close> has).
\<close>

record mat =
  ncols :: nat
  rws :: "real list list"

definition nrows :: "mat \<Rightarrow> nat" where
  "nrows M = length (rws M)"

definition wf_mat :: "mat \<Rightarrow> bool" where
  "wf_mat M \<longleftrightarrow> (\<forall>r \<in> set (rws M). length r = ncols M)"

definition np_zeros :: "nat \<Rightarrow> nat \<Rightarrow> mat" where
  "np_zeros r c = \<lparr>ncols = c, rws = replicate r (replicate c 0)\<rparr>"

text \<open>\<^verbatim>\<open>np.zeros\<close> with a computed column count: a negative dimension raises.\<close>

definition np_zeros_int :: "nat \<Rightarrow> int \<Rightarrow> error + mat" where
  "np_zeros_int r c = (if c < 0 then Inl ValueError else Inr (np_zeros r (nat c)))"

definition np_ones :: "nat \<Rightarrow> nat \<Rightarrow> mat" where
  "np_ones r c = \<lparr>ncols = c, rws = replicate r (replicate c 1)\<rparr>"

definition np_identity :: "nat \<Rightarrow> mat" where
  "np_identity n =
     \<lparr>ncols = n, rws = map (\<lambda>i. map (\<lambda>j. if i = j then 1 else 0) [0..<n]) [0..<n]\<rparr>"

definition scale :: "real \<Rightarrow> mat \<Rightarrow> mat" where
  "scale s M = \<lparr>ncols = ncols M, rws = map (map ((*) s)) (rws M)\<rparr>"

text \<open>A Python list or a scalar handed to \<^verbatim>\<open>np.vstack\<close> becomes a one-row array.\<close>

definition row_mat :: "real list \<Rightarrow> mat" where
  "row_mat r = \<lparr>ncols = length r, rws = [r]\<rparr>"

definition np_hstack :: "mat \<Rightarrow> mat \<Rightarrow> error + mat" where
  "np_hstack A B =
     (if nrows A = nrows B
      then Inr \<lparr>ncols = ncols A + ncols B, rws = map2 (@) (rws A) (rws B)\<rparr>
      else Inl ValueError)"

definition np_vstack :: "mat \<Rightarrow> mat \<Rightarrow> error + mat" where
  "np_vstack A B =
     (if ncols A = ncols B
      then Inr \<lparr>ncols = ncols A, rws = rws A @ rws B\<rparr>
      else Inl ValueError)"

text \<open>Elementwise difference of two arrays of one shape.\<close>

definition np_sub :: "mat \<Rightarrow> mat \<Rightarrow> error + mat" where
  "np_sub A B =
     (if nrows A = nrows B \<and> ncols A = ncols B
      then Inr \<lparr>ncols = ncols A, rws = map2 (map2 (-)) (rws A) (rws B)\<rparr>
      else Inl ValueError)"

definition dot :: "real list \<Rightarrow> real list \<Rightarrow> real" where
  "dot u v = sum_list (map2 (*) u v)"

definition column :: "mat \<Rightarrow> nat \<Rightarrow> real list" where
  "column M j = map (\<lambda>r. r ! j) (rws M)"

text \<open>The matrix product \<^verbatim>\<open>A @ B\<close>.\<close>

definition np_matmul :: "mat \<Rightarrow> mat \<Rightarrow> error + mat" where
  "np_matmul A B =
     (if ncols A = nrows B
      then Inr \<lparr>ncols = ncols B,
                rws = map (\<lambda>r. map (\<lambda>j. dot r (column B j)) [0..<ncols B]) (rws A)\<rparr>
      else Inl ValueError)"

text \<open>Assignment \<^verbatim>\<open>row[i] = v\<close> to a Python list, with a non-negative index.\<close>

definition py_setitem :: "real list \<Rightarrow> nat \<Rightarrow> real \<Rightarrow> error + real list" where
  "py_setitem r i v = (if i < length r then Inr (r[i := v]) else Inl IndexError)"

text \<open>\<^verbatim>\<open>np.min\<close> and \<^verbatim>\<open>np.max\<close> over a vector; an empty one raises.\<close>

definition np_min :: "real list \<Rightarrow> error + real" where
  "np_min vals = (case vals of [] \<Rightarrow> Inl ValueError | v # vs \<Rightarrow> Inr (fold min vs v))"

definition np_max :: "real list \<Rightarrow> error + real" where
  "np_max vals = (case vals of [] \<Rightarrow> Inl ValueError | v # vs \<Rightarrow> Inr (fold max vs v))"

subsection \<open>The transition tensor\<close>

text \<open>
  \<^verbatim>\<open>sorted_transition_tensor\<close> is a 3-d array \<^verbatim>\<open>T[s, a, s']\<close>: its shape and its
  cells, \<open>cells T ! s ! a ! s'\<close>.
\<close>

record tensor =
  shape0 :: nat
  shape1 :: nat
  shape2 :: nat
  cells :: "real list list list"

definition wf_tensor :: "tensor \<Rightarrow> bool" where
  "wf_tensor T \<longleftrightarrow>
     length (cells T) = shape0 T \<and>
     (\<forall>r \<in> set (cells T). length r = shape1 T \<and> (\<forall>c \<in> set r. length c = shape2 T))"

text \<open>The slice \<^verbatim>\<open>T[:, i, :]\<close>.\<close>

definition action_slice :: "tensor \<Rightarrow> nat \<Rightarrow> error + mat" where
  "action_slice T i =
     (if i < shape1 T
      then Inr \<lparr>ncols = shape2 T, rws = map (\<lambda>r. r ! i) (cells T)\<rparr>
      else Inl IndexError)"

subsection \<open>The LP solver collaborator\<close>

text \<open>
  \<^verbatim>\<open>cvxopt.solvers.lp\<close> is outside the repository: it is a parameter of every
  formulator. Its result carries a status and the solution \<^verbatim>\<open>res['x']\<close>, which cvxopt
  sets to \<^verbatim>\<open>None\<close> when it has no solution to report.
\<close>

datatype lp_status = Optimal | Infeasible | Unbounded | NumericalError

record lp_result =
  res_status :: lp_status
  res_x :: "real list option"

type_synonym lp = "mat \<times> mat \<times> mat"

type_synonym lp_solver = "real list \<Rightarrow> mat \<Rightarrow> mat \<Rightarrow> lp_result"

text \<open>The LPProblem invariant on a triple \<open>(c, A_ub, b_ub)\<close>.\<close>

definition lp_inv :: "lp \<Rightarrow> bool" where
  "lp_inv t = (case t of (c, A, b) \<Rightarrow> ncols A = ncols c \<and> nrows A = nrows b)"


text \<open>
  The solver minimises \<open>c \<cdot> x\<close> subject to \<open>A_ub x \<le> b_ub\<close>: row \<open>j\<close> of the
  constraints holds at the assignment \<open>v\<close>.
\<close>

definition row_holds :: "mat \<Rightarrow> mat \<Rightarrow> real list \<Rightarrow> nat \<Rightarrow> bool" where
  "row_holds A b v j \<longleftrightarrow> dot (rws A ! j) v \<le> rws b ! j ! 0"

text \<open>\<^verbatim>\<open>c[0, :]\<close>, the row handed to the solver.\<close>

definition first_row :: "mat \<Rightarrow> error + real list" where
  "first_row c = (case rws c of [] \<Rightarrow> Inl IndexError | r # _ \<Rightarrow> Inr r)"

text \<open>\<^verbatim>\<open>res['x'][0:n]\<close>: subscripting \<^verbatim>\<open>None\<close> raises TypeError.\<close>

definition solution_prefix :: "lp_result \<Rightarrow> nat \<Rightarrow> error + real list" where
  "solution_prefix res n = (case res_x res of None \<Rightarrow> Inl TypeError | Some xs \<Rightarrow> Inr (take n xs))"

subsection \<open>The tabular formulator \<^verbatim>\<open>linear_programming\<close>\<close>

text \<open>
  The rows \<^verbatim>\<open>-1 * (T[:, 0, :] - T[:, i, :]) @ _T_disc_inv\<close> that both
  \<^verbatim>\<open>add_optimal_policy_constraints\<close> and \<^verbatim>\<open>add_costly_single_step_constraints\<close> compute.
\<close>

definition margin_rows :: "tensor \<Rightarrow> mat \<Rightarrow> nat \<Rightarrow> error + mat" where
  "margin_rows T T_disc_inv i =
     bind_err (action_slice T 0) (\<lambda>T0.
     bind_err (action_slice T i) (\<lambda>Ti.
     bind_err (np_sub T0 Ti) (\<lambda>D.
     np_matmul (scale (- 1) D) T_disc_inv)))"

text \<open>Appending a block of rows to \<open>A_ub\<close> and as many zeros to \<open>b_ub\<close>.\<close>

definition append_rows :: "mat \<Rightarrow> lp \<Rightarrow> error + lp" where
  "append_rows R t = (case t of (c, A, b) \<Rightarrow>
     bind_err (np_vstack A R) (\<lambda>A'.
     bind_err (np_vstack b (np_zeros (nrows R) 1)) (\<lambda>b'.
     Inr (c, A', b'))))"

definition add_optimal_policy_constraints :: "tensor \<Rightarrow> mat \<Rightarrow> lp \<Rightarrow> error + lp" where
  "add_optimal_policy_constraints T T_disc_inv t =
     for_each (\<lambda>i t. bind_err (margin_rows T T_disc_inv i) (\<lambda>R. append_rows R t))
       [0..<shape1 T - 1] t"

definition css_rows :: "tensor \<Rightarrow> mat \<Rightarrow> nat \<Rightarrow> nat \<Rightarrow> error + mat" where
  "css_rows T T_disc_inv css_offset i =
     (let n = shape0 T in
      bind_err (margin_rows T T_disc_inv i) (\<lambda>constraint_rows.
      bind_err (np_zeros_int (nrows constraint_rows) (int css_offset - int n)) (\<lambda>padding_entries.
      bind_err (np_hstack constraint_rows padding_entries) (\<lambda>R1.
      np_hstack R1 (np_identity n)))))"

definition add_costly_single_step_constraints :: "tensor \<Rightarrow> mat \<Rightarrow> lp \<Rightarrow> error + lp" where
  "add_costly_single_step_constraints T T_disc_inv t = (case t of (c, A, b) \<Rightarrow>
     (let n = shape0 T in
      bind_err (np_hstack c (scale (- 1) (np_ones 1 n))) (\<lambda>c'.
      let css_offset = ncols c' - n in
      bind_err (np_hstack A (np_zeros (nrows A) n)) (\<lambda>A'.
      for_each (\<lambda>i t. bind_err (css_rows T T_disc_inv css_offset i) (\<lambda>R. append_rows R t))
        [0..<shape1 T - 1] (c', A', b)))))"

definition rmax_step :: "real \<Rightarrow> nat \<Rightarrow> lp \<Rightarrow> error + lp" where
  "rmax_step Rmax i t = (case t of (c, A, b) \<Rightarrow>
     bind_err (py_setitem (replicate (ncols A) 0) i 1) (\<lambda>constraint_row.
     bind_err (np_vstack A (row_mat constraint_row)) (\<lambda>A'.
     bind_err (np_vstack b (row_mat [Rmax])) (\<lambda>b'.
     Inr (c, A', b')))))"

definition add_rmax_constraints :: "nat \<Rightarrow> real \<Rightarrow> lp \<Rightarrow> error + lp" where
  "add_rmax_constraints n Rmax t = for_each (rmax_step Rmax) [0..<n] t"

definition l1norm_step :: "nat \<Rightarrow> nat \<Rightarrow> lp \<Rightarrow> error + lp" where
  "l1norm_step l1_offset i t = (case t of (c, A, b) \<Rightarrow>
     bind_err (py_setitem (replicate (ncols A) 0) i (- 1)) (\<lambda>constraint_row_1.
     bind_err (np_vstack A (row_mat constraint_row_1)) (\<lambda>A1.
     bind_err (np_vstack b (row_mat [0])) (\<lambda>b1.
     bind_err (py_setitem (replicate (ncols A1) 0) i 1) (\<lambda>r2.
     bind_err (py_setitem r2 (l1_offset + i) (- 1)) (\<lambda>constraint_row_2.
     bind_err (np_vstack A1 (row_mat constraint_row_2)) (\<lambda>A2.
     bind_err (np_vstack b1 (row_mat [0])) (\<lambda>b2.
     Inr (c, A2, b2)))))))))"

definition add_l1norm_constraints :: "nat \<Rightarrow> real \<Rightarrow> lp \<Rightarrow> error + lp" where
  "add_l1norm_constraints n l1 t = (case t of (c, A, b) \<Rightarrow>
     bind_err (np_hstack c (scale l1 (np_ones 1 n))) (\<lambda>c'.
     let l1_offset = ncols c' - n in
     bind_err (np_hstack A (np_zeros (nrows A) n)) (\<lambda>A'.
     for_each (l1norm_step l1_offset) [0..<n] (c', A', b))))"

text \<open>
  \<^verbatim>\<open>normalize\<close>: \<^verbatim>\<open>(vals - min_val) / (max_val - min_val)\<close>. \<open>vals\<close> is a slice of the
  solver's solution, a cvxopt matrix: its division by a scalar raises ZeroDivisionError on
  a zero scalar and otherwise multiplies every entry by the reciprocal of the scalar. The
  source has no test of its own for \<^verbatim>\<open>max_val == min_val\<close>.
\<close>

definition normalize :: "(real \<Rightarrow> real) \<Rightarrow> real list \<Rightarrow> error + real list" where
  "normalize fl vals =
     bind_err (np_min vals) (\<lambda>min_val.
     bind_err (np_max vals) (\<lambda>max_val.
     let divisor = fl (max_val - min_val) in
     if divisor = 0 then Inl ZeroDivisionError
     else
       (let reciprocal = fl (1 / divisor)
        in Inr (map (\<lambda>v. fl (fl (v - min_val) * reciprocal)) vals))))"

text \<open>
  The composition of the LP, up to the call of the solver. \<open>linalg_inv\<close> is
  \<^verbatim>\<open>np.linalg.inv\<close>, a parameter.
\<close>

definition compose_lp ::
    "tensor \<Rightarrow> real \<Rightarrow> real \<Rightarrow> real \<Rightarrow> (mat \<Rightarrow> error + mat) \<Rightarrow> error + lp" where
  "compose_lp T discount_factor l1_regularisation_weight r_max linalg_inv =
     (let n = shape0 T in
      bind_err (action_slice T 0) (\<lambda>T0.
      bind_err (np_sub (np_identity n) (scale discount_factor T0)) (\<lambda>M.
      bind_err (linalg_inv M) (\<lambda>T_disc_inv.
      bind_err (add_optimal_policy_constraints T T_disc_inv
                  (np_zeros 1 n, np_zeros 0 n, np_zeros 0 1)) (\<lambda>t1.
      bind_err (add_costly_single_step_constraints T T_disc_inv t1) (\<lambda>t2.
      bind_err (add_rmax_constraints n r_max t2) (\<lambda>t3.
      add_l1norm_constraints n l1_regularisation_weight t3)))))))"

definition linear_programming ::
    "tensor \<Rightarrow> real \<Rightarrow> real \<Rightarrow> real \<Rightarrow> (mat \<Rightarrow> error + mat) \<Rightarrow> (real \<Rightarrow> real) \<Rightarrow> lp_solver
       \<Rightarrow> error + (real list \<times> lp_result)" where
  "linear_programming T discount_factor l1_regularisation_weight r_max linalg_inv fl solver =
     bind_err (compose_lp T discount_factor l1_regularisation_weight r_max linalg_inv)
       (\<lambda>(c, A_ub, b_ub).
     bind_err (first_row c) (\<lambda>c0.
     let res = solver c0 A_ub b_ub in
     bind_err (solution_prefix res (shape0 T)) (\<lambda>vals.
     bind_err (normalize fl vals) (\<lambda>normalized.
     Inr (map (\<lambda>v. fl (r_max * v)) normalized, res)))))"

subsection \<open>The sampled formulator \<^verbatim>\<open>large_linear_programming\<close>\<close>

text \<open>
  \<^verbatim>\<open>ordered_transition_function\<close> samples a successor state: it takes the state of
  the random generator (of any type \<open>'g\<close>) and returns it updated.
  \<^verbatim>\<open>a_ve\<close>, a \<open>d \<times> k\<close> array that the source reads and writes by columns only, is
  the list of its \<open>k\<close> columns.
\<close>

text \<open>
  \<^verbatim>\<open>a_ve[:, a] += v\<close>: numpy adds a vector of the same length, broadcasts one of
  length 1 and raises on any other.
\<close>

definition add_into :: "real list \<Rightarrow> real list \<Rightarrow> error + real list" where
  "add_into col v =
     (if length v = length col then Inr (map2 (+) col v)
      else if length v = 1 then Inr (map (\<lambda>x. x + hd v) col)
      else Inl ValueError)"

definition sample_step ::
    "('g \<Rightarrow> 's \<Rightarrow> nat \<Rightarrow> 's \<times> 'g) \<Rightarrow> ('s \<Rightarrow> real list) \<Rightarrow> 's \<Rightarrow> nat
       \<Rightarrow> real list list \<times> 'g \<Rightarrow> error + (real list list \<times> 'g)" where
  "sample_step ordered_transition_function basis_value_fn state a acc = (case acc of (a_ve, g) \<Rightarrow>
     (case ordered_transition_function g state a of (s', g') \<Rightarrow>
        bind_err (add_into (a_ve ! a) (basis_value_fn s')) (\<lambda>col.
        Inr (a_ve[a := col], g'))))"

text \<open>
  The value expectations of one sampled state: the two nested sampling loops, then
  \<^verbatim>\<open>a_ve /= num_transition_samples\<close> (nan throughout when there is no sample).
\<close>

definition value_expectations ::
    "('g \<Rightarrow> 's \<Rightarrow> nat \<Rightarrow> 's \<times> 'g) \<Rightarrow> ('s \<Rightarrow> real list) \<Rightarrow> nat \<Rightarrow> nat \<Rightarrow> nat \<Rightarrow> 's \<Rightarrow> 'g
       \<Rightarrow> error + (real list list \<times> 'g)" where
  "value_expectations ordered_transition_function basis_value_fn num_basis_functions num_actions
       num_transition_samples state g =
     bind_err
       (for_each
          (\<lambda>i. for_each (sample_step ordered_transition_function basis_value_fn state)
                  [0..<num_actions])
          [0..<num_transition_samples]
          (replicate num_actions (replicate num_basis_functions 0), g))
       (\<lambda>(a_ve, g').
          if num_transition_samples = 0 then Inl NotANumber
          else Inr (map (map (\<lambda>v. v / real num_transition_samples)) a_ve, g'))"

text \<open>
  \<^verbatim>\<open>a_ve_diff.T\<close>, where \<^verbatim>\<open>a_ve_diff = a_ve[:, 0:1] - a_ve[:, 1:]\<close>: one row for each
  non-expert action.
\<close>

definition a_ve_diff_T :: "nat \<Rightarrow> real list list \<Rightarrow> error + mat" where
  "a_ve_diff_T num_basis_functions a_ve =
     (case a_ve of
        [] \<Rightarrow> Inl IndexError
      | col0 # others \<Rightarrow>
          Inr \<lparr>ncols = num_basis_functions, rws = map (\<lambda>col. map2 (-) col0 col) others\<rparr>)"

text \<open>
  \<^verbatim>\<open>np.vstack\<close> of a sequence of \<open>j\<close> copies of one array (the source passes a generator
  expression); an empty sequence raises.
\<close>

definition np_vstack_copies :: "nat \<Rightarrow> mat \<Rightarrow> error + mat" where
  "np_vstack_copies j M =
     (if j = 0 then Inl ValueError
      else Inr \<lparr>ncols = ncols M, rws = concat (replicate j (rws M))\<rparr>)"

definition large_css_step ::
    "('g \<Rightarrow> 's \<Rightarrow> nat \<Rightarrow> 's \<times> 'g) \<Rightarrow> ('s \<Rightarrow> real list) \<Rightarrow> nat \<Rightarrow> nat \<Rightarrow> nat \<Rightarrow> nat \<Rightarrow> real
       \<Rightarrow> nat \<times> 's \<Rightarrow> lp \<times> 'g \<Rightarrow> error + (lp \<times> 'g)" where
  "large_css_step ordered_transition_function basis_value_fn num_states num_basis_functions
       num_actions num_transition_samples penalty_coefficient entry acc =
     (case entry of (si, state) \<Rightarrow> case acc of ((c, a_ub, b_ub), g) \<Rightarrow>
        bind_err (value_expectations ordered_transition_function basis_value_fn
                    num_basis_functions num_actions num_transition_samples state g)
          (\<lambda>(a_ve, g').
        bind_err (a_ve_diff_T num_basis_functions a_ve) (\<lambda>diffT.
        bind_err (py_setitem (replicate num_states 0) si (- 1)) (\<lambda>tmp_row.
        bind_err (np_vstack_copies (num_actions - 1) (row_mat tmp_row)) (\<lambda>tmp.
        bind_err (np_hstack diffT tmp) (\<lambda>R1.
        bind_err (np_vstack a_ub R1) (\<lambda>a1.
        bind_err (np_vstack_copies (num_actions - 1) (row_mat [0])) (\<lambda>z1.
        bind_err (np_vstack b_ub z1) (\<lambda>b1.
        bind_err (np_hstack (scale penalty_coefficient diffT) tmp) (\<lambda>R2.
        bind_err (np_vstack a1 R2) (\<lambda>a2.
        bind_err (np_vstack_copies (num_actions - 1) (row_mat [0])) (\<lambda>z2.
        bind_err (np_vstack b1 z2) (\<lambda>b2.
        Inr ((c, a2, b2), g'))))))))))))))"

definition large_add_costly_single_step_constraints ::
    "'s list \<Rightarrow> ('g \<Rightarrow> 's \<Rightarrow> nat \<Rightarrow> 's \<times> 'g) \<Rightarrow> ('s \<Rightarrow> real list) \<Rightarrow> nat \<Rightarrow> nat \<Rightarrow> nat \<Rightarrow> real
       \<Rightarrow> lp \<times> 'g \<Rightarrow> error + (lp \<times> 'g)" where
  "large_add_costly_single_step_constraints state_sample ordered_transition_function
       basis_value_fn num_basis_functions num_actions num_transition_samples
       penalty_coefficient acc =
     (case acc of ((c, a_ub, b_ub), g) \<Rightarrow>
       (let num_states = length state_sample in
        bind_err (np_hstack c (scale (- 1) (np_ones 1 num_states))) (\<lambda>c'.
        bind_err (np_hstack a_ub (np_zeros (nrows a_ub) num_states)) (\<lambda>a'.
        for_each
          (large_css_step ordered_transition_function basis_value_fn num_states
             num_basis_functions num_actions num_transition_samples penalty_coefficient)
          (zip [0..<num_states] state_sample)
          ((c', a', b_ub), g)))))"

text \<open>
  \<^verbatim>\<open>add_alpha_size_constraints\<close>, which the sampled and the trajectory formulator both
  define, with the same body.
\<close>

definition alpha_size_step :: "nat \<Rightarrow> lp \<Rightarrow> error + lp" where
  "alpha_size_step i t = (case t of (c, A, b) \<Rightarrow>
     bind_err (py_setitem (replicate (ncols A) 0) i 1) (\<lambda>row1.
     bind_err (np_vstack A (row_mat row1)) (\<lambda>A1.
     bind_err (np_vstack b (row_mat [1])) (\<lambda>b1.
     bind_err (py_setitem (replicate (ncols A1) 0) i (- 1)) (\<lambda>row2.
     bind_err (np_vstack A1 (row_mat row2)) (\<lambda>A2.
     bind_err (np_vstack b1 (row_mat [1])) (\<lambda>b2.
     Inr (c, A2, b2))))))))"

definition add_alpha_size_constraints :: "nat \<Rightarrow> lp \<Rightarrow> error + lp" where
  "add_alpha_size_constraints d t = for_each alpha_size_step [0..<d] t"

text \<open>The composition of the sampled LP, up to the call of the solver.\<close>

definition large_compose_lp ::
    "'s list \<Rightarrow> nat \<Rightarrow> ('g \<Rightarrow> 's \<Rightarrow> nat \<Rightarrow> 's \<times> 'g) \<Rightarrow> ('s \<Rightarrow> real list) \<Rightarrow> nat \<Rightarrow> real \<Rightarrow> nat
       \<Rightarrow> 'g \<Rightarrow> error + (lp \<times> 'g)" where
  "large_compose_lp state_sample num_actions ordered_transition_function basis_value_fn
       num_basis_functions penalty_coefficient num_transition_samples g =
     bind_err (large_add_costly_single_step_constraints state_sample
                 ordered_transition_function basis_value_fn num_basis_functions num_actions
                 num_transition_samples penalty_coefficient
                 ((np_zeros 1 num_basis_functions, np_zeros 0 num_basis_functions,
                   np_zeros 0 1), g))
       (\<lambda>(t1, g').
     bind_err (add_alpha_size_constraints num_basis_functions t1) (\<lambda>t2.
     Inr (t2, g')))"

definition large_linear_programming ::
    "'s list \<Rightarrow> nat \<Rightarrow> ('g \<Rightarrow> 's \<Rightarrow> nat \<Rightarrow> 's \<times> 'g) \<Rightarrow> ('s \<Rightarrow> real list) \<Rightarrow> real \<Rightarrow> nat \<Rightarrow> 'g
       \<Rightarrow> lp_solver \<Rightarrow> error + (real list \<times> lp_result)" where
  "large_linear_programming state_sample num_actions ordered_transition_function basis_value_fn
       penalty_coefficient num_transition_samples g solver =
     (if \<not> penalty_coefficient \<ge> 1 then Inl AssertionError
      else case state_sample of
        [] \<Rightarrow> Inl IndexError
      | s0 # _ \<Rightarrow>
         (let num_basis_functions = length (basis_value_fn s0) in
          bind_err (large_compose_lp state_sample num_actions ordered_transition_function
                      basis_value_fn num_basis_functions penalty_coefficient
                      num_transition_samples g)
            (\<lambda>((c, a_ub, b_ub), g').
          bind_err (first_row c) (\<lambda>c0.
          let res = solver c0 a_ub b_ub in
          bind_err (solution_prefix res num_basis_functions) (\<lambda>alpha_vector.
          Inr (alpha_vector, res))))))"

subsection \<open>The trajectory formulator \<^verbatim>\<open>trajectory_linear_programming\<close>\<close>

text \<open>
  A state is a vector of reals, a trajectory a list of (state, action) pairs. A policy is
  a Python callable, which may raise. The sampling transition function \<open>T\<close> threads the
  state of the random generator, as do the two draws of the source from \<^verbatim>\<open>np.random\<close>,
  which are parameters: \<open>uniform\<close> for \<^verbatim>\<open>np.random.uniform(size=d)\<close> and \<open>choice\<close> for
  \<^verbatim>\<open>np.random.choice(A, [N] * len(S_bounds))\<close>, whose array is a function of the index
  tuple.
\<close>

type_synonym state = "real list"

type_synonym 'a trajectory = "(state \<times> 'a) list"

type_synonym 'a policy = "state \<Rightarrow> error + 'a"

definition state_disc_index :: "(real \<times> real) list \<Rightarrow> nat \<Rightarrow> nat \<times> real \<Rightarrow> error + nat" where
  "state_disc_index S_bounds N entry = (case entry of (state_index, st) \<Rightarrow>
     if \<not> state_index < length S_bounds then Inl IndexError
     else case S_bounds ! state_index of (s_min, s_max) \<Rightarrow>
       if s_max - s_min = 0 then Inl ZeroDivisionError
       else Inr (nat (min (max (py_round ((st - s_min) / (s_max - s_min) * (real N - 1))) 0)
                          (int N - 1))))"

fun collect :: "('i \<Rightarrow> error + 'b) \<Rightarrow> 'i list \<Rightarrow> error + 'b list" where
  "collect f [] = Inr []"
| "collect f (i # is) = bind_err (f i) (\<lambda>v. bind_err (collect f is) (\<lambda>vs. Inr (v # vs)))"

definition state_as_index_tuple :: "(real \<times> real) list \<Rightarrow> state \<Rightarrow> nat \<Rightarrow> error + nat list" where
  "state_as_index_tuple S_bounds s N =
     collect (state_disc_index S_bounds N) (zip [0..<length s] s)"

definition random_policy ::
    "('g \<Rightarrow> 'a list \<Rightarrow> nat list \<Rightarrow> (nat list \<Rightarrow> 'a) \<times> 'g) \<Rightarrow> 'a list \<Rightarrow> (real \<times> real) list \<Rightarrow> nat
       \<Rightarrow> 'g \<Rightarrow> 'a policy \<times> 'g" where
  "random_policy choice A S_bounds N g =
     (case choice g A (replicate (length S_bounds) N) of (r_policy, g') \<Rightarrow>
        (\<lambda>s. bind_err (state_as_index_tuple S_bounds s N) (\<lambda>idx. Inr (r_policy idx)), g'))"

text \<open>
  One rollout of \<^verbatim>\<open>mc_trajectories\<close>: the loop \<^verbatim>\<open>while len(rollout) < H\<close>, by
  recursion on the number of steps that remain.
\<close>

fun rollout_from ::
    "('g \<Rightarrow> state \<Rightarrow> 'a \<Rightarrow> (state \<times> bool) \<times> 'g) \<Rightarrow> 'a policy \<Rightarrow> nat \<Rightarrow> state \<Rightarrow> 'g
       \<Rightarrow> error + ('a trajectory \<times> 'g)" where
  "rollout_from T policy 0 st g = Inr ([], g)"
| "rollout_from T policy (Suc remaining) st g =
     bind_err (policy st) (\<lambda>action.
     case T g st action of ((st', done), g') \<Rightarrow>
       if done then Inr ([(st, action)], g')
       else bind_err (rollout_from T policy remaining st' g') (\<lambda>(rest, g'').
            Inr ((st, action) # rest, g'')))"

definition mc_step ::
    "('g \<Rightarrow> state \<Rightarrow> 'a \<Rightarrow> (state \<times> bool) \<times> 'g) \<Rightarrow> 'a policy \<Rightarrow> nat \<Rightarrow> state \<Rightarrow> nat
       \<Rightarrow> 'a trajectory list \<times> 'g \<Rightarrow> error + ('a trajectory list \<times> 'g)" where
  "mc_step T policy H start_state i acc = (case acc of (trajectories, g) \<Rightarrow>
     bind_err (rollout_from T policy H start_state g) (\<lambda>(rollout, g').
     Inr (trajectories @ [rollout], g')))"

definition mc_trajectories ::
    "('g \<Rightarrow> state \<Rightarrow> 'a \<Rightarrow> (state \<times> bool) \<times> 'g) \<Rightarrow> 'a policy \<Rightarrow> nat \<Rightarrow> nat \<Rightarrow> state \<Rightarrow> 'g
       \<Rightarrow> error + ('a trajectory list \<times> 'g)" where
  "mc_trajectories T policy m H start_state g =
     for_each (mc_step T policy H start_state) [0..<m] ([], g)"

text \<open>
  \<^verbatim>\<open>emperical_trajectory_value\<close>: for each basis function \<open>i\<close>, the loop over \<open>j\<close> adds
  \<^verbatim>\<open>gamma ** j * phi_i(trajectory[j][0])\<close> to \<^verbatim>\<open>value[i]\<close>.
\<close>

definition emperical_trajectory_value ::
    "(state \<Rightarrow> real) list \<Rightarrow> real \<Rightarrow> 'a trajectory \<Rightarrow> real list" where
  "emperical_trajectory_value phi gamma trajectory =
     map (\<lambda>i. fold (\<lambda>j value_i. value_i + gamma ^ j * (phi ! i) (fst (trajectory ! j)))
                 [0..<length trajectory] 0)
         [0..<length phi]"

text \<open>
  \<^verbatim>\<open>emperical_policy_value\<close>: the sum of the trajectory values, then
  \<^verbatim>\<open>value_vector /= len(zeta)\<close> (nan throughout for an empty \<open>zeta\<close>).
\<close>

definition emperical_policy_value ::
    "(state \<Rightarrow> real) list \<Rightarrow> real \<Rightarrow> 'a trajectory list \<Rightarrow> error + real list" where
  "emperical_policy_value phi gamma zeta =
     (let value_vector =
            fold (\<lambda>trajectory value_vector.
                    map2 (+) value_vector (emperical_trajectory_value phi gamma trajectory))
                 zeta (replicate (length phi) 0)
      in if length zeta = 0 then Inl NotANumber
         else Inr (map (\<lambda>v. v / real (length zeta)) value_vector))"

text \<open>
  \<^verbatim>\<open>expert_value_vector - non_expert_policy_value_vectors\<close>: every row of the array
  is subtracted from the vector (both have \<open>d\<close> columns, being made by
  \<^verbatim>\<open>emperical_policy_value\<close>).
\<close>

definition broadcast_sub :: "real list \<Rightarrow> mat \<Rightarrow> error + mat" where
  "broadcast_sub v M =
     (if length v = ncols M
      then Inr \<lparr>ncols = ncols M, rws = map (\<lambda>r. map2 (-) v r) (rws M)\<rparr>
      else Inl ValueError)"

definition add_optimal_expert_constraints ::
    "nat \<Rightarrow> nat \<Rightarrow> real list \<Rightarrow> mat \<Rightarrow> real \<Rightarrow> lp \<Rightarrow> error + lp" where
  "add_optimal_expert_constraints d k expert_value_vector non_expert_policy_value_vectors p t =
     (case t of (c, A_ub, b_ub) \<Rightarrow>
        bind_err (np_hstack (np_zeros 1 d) (np_ones 1 k)) (\<lambda>c'.
        bind_err (np_hstack A_ub (np_zeros (nrows A_ub) k)) (\<lambda>A0.
        bind_err (broadcast_sub expert_value_vector non_expert_policy_value_vectors) (\<lambda>D.
        bind_err (np_hstack D (scale (- 1) (np_identity k))) (\<lambda>R1.
        bind_err (np_vstack A0 R1) (\<lambda>A1.
        bind_err (np_vstack b_ub (np_zeros k 1)) (\<lambda>b1.
        bind_err (np_hstack (scale p D) (scale (- 1) (np_identity k))) (\<lambda>R2.
        bind_err (np_vstack A1 R2) (\<lambda>A2.
        bind_err (np_vstack b1 (np_zeros k 1)) (\<lambda>b2.
        Inr (c', A2, b2)))))))))))"

text \<open>\<^verbatim>\<open>np.linalg.norm(alpha - alpha_new)\<close>, on two vectors of one length.\<close>

definition norm_diff :: "real list \<Rightarrow> real list \<Rightarrow> error + real" where
  "norm_diff u v =
     (if length u = length v
      then Inr (sqrt (sum_list (map (\<lambda>w. w ^ 2) (map2 (-) u v))))
      else Inl ValueError)"

text \<open>
  The variables that the outer loop carries from one iteration to the next.
\<close>

record ('a, 'g) loop_state =
  alpha :: "real list"
  non_expert_policy_set :: "'a policy list"
  non_expert_policy_value_vectors :: mat
  gen :: 'g

text \<open>
  The first half of a pass through the body of \<^verbatim>\<open>while True\<close>: the LP is composed
  for the policies known so far and solved, and \<open>alpha_new\<close> is \<^verbatim>\<open>res['x'][0:d].T\<close>.
\<close>

definition tlp_solve ::
    "nat \<Rightarrow> real \<Rightarrow> lp_solver \<Rightarrow> real list \<Rightarrow> ('a, 'g) loop_state \<Rightarrow> error + real list" where
  "tlp_solve d p solver expert_value_vector \<sigma> =
     bind_err (add_optimal_expert_constraints d (length (non_expert_policy_set \<sigma>))
                 expert_value_vector (non_expert_policy_value_vectors \<sigma>) p
                 (np_zeros 1 d, np_zeros 0 d, np_zeros 0 1)) (\<lambda>t1.
     bind_err (add_alpha_size_constraints d t1) (\<lambda>(c, A_ub, b_ub).
     bind_err (first_row c) (\<lambda>c0.
     let res = solver c0 A_ub b_ub in
     solution_prefix res d)))"

text \<open>
  One pass through the body: \<open>Inl\<close> the value returned after \<^verbatim>\<open>break\<close>, \<open>Inr\<close> the
  state for the next pass. The function returns \<^verbatim>\<open>alpha, result\<close>, and \<^verbatim>\<open>result\<close> is
  never assigned after \<^verbatim>\<open>result = None\<close>. The optional callback \<^verbatim>\<open>on_iteration\<close>
  and the \<^verbatim>\<open>verbose\<close> printing are left out.
\<close>

definition tlp_iteration ::
    "('g \<Rightarrow> state \<Rightarrow> 'a \<Rightarrow> (state \<times> bool) \<times> 'g) \<Rightarrow> (state \<Rightarrow> real) list \<Rightarrow> real
       \<Rightarrow> (real list \<Rightarrow> 'a policy) \<Rightarrow> real \<Rightarrow> nat \<Rightarrow> nat \<Rightarrow> real \<Rightarrow> lp_solver \<Rightarrow> state \<Rightarrow> real list
       \<Rightarrow> ('a, 'g) loop_state
       \<Rightarrow> error + ((real list \<times> lp_result option) + ('a, 'g) loop_state)" where
  "tlp_iteration T phi gamma opt_pol p m H tol solver start_state expert_value_vector \<sigma> =
     bind_err (tlp_solve (length phi) p solver expert_value_vector \<sigma>) (\<lambda>alpha_new.
     bind_err (norm_diff (alpha \<sigma>) alpha_new) (\<lambda>alpha_delta.
     if alpha_delta \<le> tol then Inr (Inl (alpha \<sigma>, None))
     else
       (let new_policy = opt_pol alpha_new in
        bind_err (mc_trajectories T new_policy m H start_state (gen \<sigma>)) (\<lambda>(trajectories, g').
        bind_err (emperical_policy_value phi gamma trajectories) (\<lambda>value_vector.
        bind_err (np_vstack (non_expert_policy_value_vectors \<sigma>) (row_mat value_vector)) (\<lambda>V.
        Inr (Inr \<lparr>alpha = alpha_new,
                  non_expert_policy_set = non_expert_policy_set \<sigma> @ [new_policy],
                  non_expert_policy_value_vectors = V,
                  gen = g'\<rparr>)))))))"

text \<open>
  The loop \<^verbatim>\<open>while True\<close> has no bound in the source: it is given fuel, and running
  out of fuel is the value \<open>None\<close>.
\<close>

fun tlp_loop ::
    "(('a, 'g) loop_state \<Rightarrow> error + ((real list \<times> lp_result option) + ('a, 'g) loop_state))
       \<Rightarrow> nat \<Rightarrow> ('a, 'g) loop_state \<Rightarrow> (error + (real list \<times> lp_result option)) option" where
  "tlp_loop body 0 \<sigma> = None"
| "tlp_loop body (Suc fuel) \<sigma> =
     (case body \<sigma> of
        Inl e \<Rightarrow> Some (Inl e)
      | Inr (Inl returned) \<Rightarrow> Some (Inr returned)
      | Inr (Inr \<sigma>') \<Rightarrow> tlp_loop body fuel \<sigma>')"

text \<open>
  The state of the loop after \<open>j\<close> passes none of which left the loop (by \<^verbatim>\<open>break\<close> or
  by an exception).
\<close>

fun passes :: "('s \<Rightarrow> error + ('r + 's)) \<Rightarrow> nat \<Rightarrow> 's \<Rightarrow> 's option" where
  "passes body 0 \<sigma> = Some \<sigma>"
| "passes body (Suc j) \<sigma> =
     (case body \<sigma> of Inr (Inr \<sigma>') \<Rightarrow> passes body j \<sigma>' | _ \<Rightarrow> None)"

text \<open>
  The contract of an LP solver on which a bound on its solutions rests: a solution it
  reports has one value for each variable and satisfies every constraint row.
\<close>

definition solver_feasible :: "lp_solver \<Rightarrow> bool" where
  "solver_feasible solver \<longleftrightarrow>
     (\<forall>c A b xs. res_x (solver c A b) = Some xs \<longrightarrow>
        length xs = length c \<and> (\<forall>j < nrows A. row_holds A b xs j))"

text \<open>
  The start of the function, up to the loop: the start state \<^verbatim>\<open>zeta[0][0][0]\<close>, the
  check of the starting states, the first draw of \<open>alpha\<close>, the expert's value vector and
  the first, random, policy. The check iterates over \<^verbatim>\<open>range(len(zeta) - 1)\<close> and
  subscripts the loop variable, an \<^verbatim>\<open>int\<close>: the first pass raises TypeError.
\<close>

definition tlp_init ::
    "'a trajectory list \<Rightarrow> ('g \<Rightarrow> state \<Rightarrow> 'a \<Rightarrow> (state \<times> bool) \<times> 'g) \<Rightarrow> (real \<times> real) list
       \<Rightarrow> 'a list \<Rightarrow> (state \<Rightarrow> real) list \<Rightarrow> real \<Rightarrow> nat \<Rightarrow> nat
       \<Rightarrow> ('g \<Rightarrow> nat \<Rightarrow> real list \<times> 'g) \<Rightarrow> ('g \<Rightarrow> 'a list \<Rightarrow> nat list \<Rightarrow> (nat list \<Rightarrow> 'a) \<times> 'g) \<Rightarrow> 'g
       \<Rightarrow> error + (state \<times> real list \<times> ('a, 'g) loop_state)" where
  "tlp_init zeta T S_bounds A phi gamma m H uniform choice g =
     (let d = length phi in
      case zeta of
        [] \<Rightarrow> Inl IndexError
      | first_demonstration # _ \<Rightarrow>
         (case first_demonstration of
            [] \<Rightarrow> Inl IndexError
          | (start_state, _) # _ \<Rightarrow>
              if [0..<length zeta - 1] \<noteq> [] then Inl TypeError
              else
                (case uniform g d of (u, g1) \<Rightarrow>
                 bind_err (emperical_policy_value phi gamma zeta) (\<lambda>expert_value_vector.
                 case random_policy choice A S_bounds 20 g1 of (policy0, g2) \<Rightarrow>
                 bind_err (mc_trajectories T policy0 m H start_state g2) (\<lambda>(trajectories, g3).
                 bind_err (emperical_policy_value phi gamma trajectories) (\<lambda>value_vector.
                 Inr (start_state, expert_value_vector,
                      \<lparr>alpha = map (\<lambda>v. v * 2 - 1) u,
                       non_expert_policy_set = [policy0],
                       non_expert_policy_value_vectors = row_mat value_vector,
                       gen = g3\<rparr>)))))))"

definition trajectory_linear_programming ::
    "nat \<Rightarrow> 'a trajectory list \<Rightarrow> ('g \<Rightarrow> state \<Rightarrow> 'a \<Rightarrow> (state \<times> bool) \<times> 'g) \<Rightarrow> (real \<times> real) list
       \<Rightarrow> 'a list \<Rightarrow> (state \<Rightarrow> real) list \<Rightarrow> real \<Rightarrow> (real list \<Rightarrow> 'a policy) \<Rightarrow> real \<Rightarrow> nat \<Rightarrow> nat
       \<Rightarrow> real \<Rightarrow> ('g \<Rightarrow> nat \<Rightarrow> real list \<times> 'g)
       \<Rightarrow> ('g \<Rightarrow> 'a list \<Rightarrow> nat list \<Rightarrow> (nat list \<Rightarrow> 'a) \<times> 'g) \<Rightarrow> 'g \<Rightarrow> lp_solver
       \<Rightarrow> (error + (real list \<times> lp_result option)) option" where
  "trajectory_linear_programming fuel zeta T S_bounds A phi gamma opt_pol p m H tol
       uniform choice g solver =
     (case tlp_init zeta T S_bounds A phi gamma m H uniform choice g of
        Inl e \<Rightarrow> Some (Inl e)
      | Inr (start_state, expert_value_vector, \<sigma>0) \<Rightarrow>
          tlp_loop (tlp_iteration T phi gamma opt_pol p m H tol solver start_state
                      expert_value_vector) fuel \<sigma>0)"

section \<open>Properties\<close>

subsection \<open>Error propagation, loops and array shapes\<close>

lemma bind_err_Inr [simp]: "bind_err (Inr v) f = f v"
  by (simp add: bind_err_def)

lemma bind_err_Inl [simp]: "bind_err (Inl e) f = Inl e"
  by (simp add: bind_err_def)

lemma bind_err_eq_Inr: "bind_err m f = Inr w \<longleftrightarrow> (\<exists>v. m = Inr v \<and> f v = Inr w)"
  by (cases m) simp_all

lemma for_each_invariant:
  assumes "Q 0 s"
    and "\<And>j s. j < length is \<Longrightarrow> Q j s \<Longrightarrow> \<exists>s'. f (is ! j) s = Inr s' \<and> Q (Suc j) s'"
  shows "\<exists>s'. for_each f is s = Inr s' \<and> Q (length is) s'"
  using assms
proof (induction "is" arbitrary: s Q)
  case Nil
  then show ?case by simp
next
  case (Cons i "is")
  from Cons.prems(2)[of 0 s] Cons.prems(1)
  obtain s1 where s1: "f i s = Inr s1" "Q (Suc 0) s1" by auto
  have "\<exists>s'. for_each f is s1 = Inr s' \<and> (\<lambda>j. Q (Suc j)) (length is) s'"
  proof (rule Cons.IH)
    show "Q (Suc 0) s1" by (rule s1(2))
  next
    fix j s assume "j < length is" "Q (Suc j) s"
    then show "\<exists>s'. f (is ! j) s = Inr s' \<and> Q (Suc (Suc j)) s'"
      using Cons.prems(2)[of "Suc j" s] by simp
  qed
  then show ?case using s1(1) by simp
qed

lemma nrows_simps [simp]:
  "nrows \<lparr>ncols = k, rws = rs\<rparr> = length rs"
  "nrows (np_zeros r k) = r" "ncols (np_zeros r k) = k"
  "nrows (np_ones r k) = r" "ncols (np_ones r k) = k"
  "nrows (np_identity n) = n" "ncols (np_identity n) = n"
  "nrows (scale s M) = nrows M" "ncols (scale s M) = ncols M"
  "nrows (row_mat v) = 1" "ncols (row_mat v) = length v"
  by (simp_all add: nrows_def np_zeros_def np_ones_def np_identity_def scale_def row_mat_def)

lemma np_hstack_shape:
  "nrows A = nrows B \<Longrightarrow>
   \<exists>M. np_hstack A B = Inr M \<and> nrows M = nrows A \<and> ncols M = ncols A + ncols B"
  by (simp add: np_hstack_def nrows_def)

lemma np_vstack_shape:
  "ncols A = ncols B \<Longrightarrow>
   \<exists>M. np_vstack A B = Inr M \<and> nrows M = nrows A + nrows B \<and> ncols M = ncols A"
  by (simp add: np_vstack_def nrows_def)

lemma margin_rows_shape:
  assumes "length (cells T) = shape0 T" "shape2 T = nrows T_disc_inv" "i < shape1 T"
  shows "\<exists>R. margin_rows T T_disc_inv i = Inr R \<and> nrows R = shape0 T \<and> ncols R = ncols T_disc_inv"
  using assms
  by (simp add: margin_rows_def action_slice_def np_sub_def np_matmul_def nrows_def scale_def)

lemma append_rows_shape:
  assumes "ncols A = ncols R" "ncols b = 1"
  shows "\<exists>A' b'. append_rows R (c, A, b) = Inr (c, A', b') \<and> ncols A' = ncols A \<and>
           nrows A' = nrows A + nrows R \<and> ncols b' = 1 \<and> nrows b' = nrows b + nrows R"
  using assms by (simp add: append_rows_def np_vstack_def nrows_def np_zeros_def)


lemma css_rows_shape:
  assumes "length (cells T) = shape0 T" "shape2 T = nrows T_disc_inv" "i < shape1 T"
    and "ncols T_disc_inv = shape0 T" "shape0 T \<le> css_offset"
  shows "\<exists>R. css_rows T T_disc_inv css_offset i = Inr R \<and> nrows R = shape0 T \<and>
           ncols R = css_offset + shape0 T"
proof -
  from margin_rows_shape[OF assms(1-3)] obtain M where M:
    "margin_rows T T_disc_inv i = Inr M" "nrows M = shape0 T" "ncols M = ncols T_disc_inv"
    by blast
  then show ?thesis using assms(4,5)
    by (simp add: css_rows_def Let_def np_zeros_int_def np_hstack_def nrows_def
        np_zeros_def np_identity_def)
qed

lemma costly_single_step_adds:
  assumes T: "length (cells T) = shape0 T" "shape2 T = nrows T_disc_inv"
      "ncols T_disc_inv = shape0 T"
    and t: "lp_inv (c, A, b)" "rws c = [c0]" "ncols b = 1" "shape0 T \<le> ncols c"
  shows "\<exists>c' A' b'. add_costly_single_step_constraints T T_disc_inv (c, A, b) = Inr (c', A', b') \<and>
           ncols c' = ncols c + shape0 T \<and>
           rws c' = [c0 @ replicate (shape0 T) (- 1)] \<and>
           ncols A' = ncols A + shape0 T \<and>
           nrows A' = nrows A + (shape1 T - 1) * shape0 T \<and>
           ncols b' = 1 \<and>
           nrows b' = nrows b + (shape1 T - 1) * shape0 T"
proof -
  let ?n = "shape0 T"
  let ?c' = "\<lparr>ncols = ncols c + ?n, rws = [c0 @ replicate ?n (- 1)]\<rparr>"
  let ?A0 = "\<lparr>ncols = ncols A + ?n, rws = map2 (@) (rws A) (replicate (nrows A) (replicate ?n 0))\<rparr>"
  let ?f = "\<lambda>i t. bind_err (css_rows T T_disc_inv (ncols c) i) (\<lambda>R. append_rows R t)"
  let ?Q = "\<lambda>j t. \<exists>A' b'. t = (?c', A', b') \<and> ncols A' = ncols A + ?n \<and>
              nrows A' = nrows A + j * ?n \<and> ncols b' = 1 \<and> nrows b' = nrows b + j * ?n"
  have c': "np_hstack c (scale (- 1) (np_ones 1 ?n)) = Inr ?c'"
    using t(2) by (simp add: np_hstack_def nrows_def scale_def np_ones_def)
  have A0: "np_hstack A (np_zeros (nrows A) ?n) = Inr ?A0"
    by (simp add: np_hstack_def nrows_def np_zeros_def)
  have "\<exists>t'. for_each ?f [0..<shape1 T - 1] (?c', ?A0, b) = Inr t' \<and>
          ?Q (length [0..<shape1 T - 1]) t'"
  proof (rule for_each_invariant)
    show "?Q 0 (?c', ?A0, b)" using t(3) by (simp add: nrows_def)
  next
    fix j s assume j: "j < length [0..<shape1 T - 1]" and Q: "?Q j s"
    then obtain A' b' where s: "s = (?c', A', b')" "ncols A' = ncols A + ?n"
      "nrows A' = nrows A + j * ?n" "ncols b' = 1" "nrows b' = nrows b + j * ?n"
      by blast
    from j have "j < shape1 T" by simp
    with css_rows_shape[OF T(1,2) _ T(3) t(4)] obtain R where R:
      "css_rows T T_disc_inv (ncols c) j = Inr R" "nrows R = ?n" "ncols R = ncols c + ?n"
      by blast
    have "ncols A' = ncols R" using s(2) R(3) t(1) by (simp add: lp_inv_def)
    from append_rows_shape[OF this s(4), of ?c'] R s
    show "\<exists>s'. ?f ([0..<shape1 T - 1] ! j) s = Inr s' \<and> ?Q (Suc j) s'"
      using j by auto
  qed
  then show ?thesis
    using c' A0 by (auto simp: add_costly_single_step_constraints_def Let_def)
qed

subsection \<open>The costly-single-step block of the tabular formulator\<close>

text \<open>
  Claim C6. For a transition tensor with \<open>n\<close> states and \<open>k\<close> actions (and the \<open>n \<times> n\<close>
  discounted inverse), the tabular costly-single-step block, applied to a triple that
  satisfies the LP invariant and has at least \<open>n\<close> variables, adds exactly \<open>n\<close> new
  optimisation variables, each with objective weight \<open>-1\<close>, and exactly \<open>(k - 1) * n\<close>
  new constraint rows to \<open>A_ub\<close> and to \<open>b_ub\<close>.
\<close>

theorem costly_single_step_counts:
  assumes "wf_tensor T" and "shape2 T = shape0 T"
    and "nrows T_disc_inv = shape0 T" and "ncols T_disc_inv = shape0 T"
    and "lp_inv (c, A, b)" and "rws c = [c0]" and "ncols b = 1" and "shape0 T \<le> ncols c"
  shows "\<exists>c' A' b'.
           add_costly_single_step_constraints T T_disc_inv (c, A, b) = Inr (c', A', b') \<and>
           ncols c' = ncols c + shape0 T \<and>
           rws c' = [c0 @ replicate (shape0 T) (- 1)] \<and>
           ncols A' = ncols A + shape0 T \<and>
           nrows A' = nrows A + (shape1 T - 1) * shape0 T \<and>
           nrows b' = nrows b + (shape1 T - 1) * shape0 T"
proof -
  have "length (cells T) = shape0 T" using assms(1) by (simp add: wf_tensor_def)
  moreover have "shape2 T = nrows T_disc_inv" using assms(2,3) by simp
  ultimately show ?thesis
    using costly_single_step_adds[OF _ _ assms(4) assms(5-8)] by blast
qed

text \<open>With \<open>k = 2\<close> and \<open>n = 3\<close>: three helper variables and three constraint rows.\<close>

theorem costly_single_step_counts_witness:
  "\<exists>c' A' b'.
     add_costly_single_step_constraints
       \<lparr>shape0 = 3, shape1 = 2, shape2 = 3,
        cells = [[[0, 1, 0], [1, 0, 0]], [[0, 0, 1], [0, 1, 0]], [[0, 0, 1], [1, 0, 0]]]\<rparr>
       (np_identity 3) (np_zeros 1 3, np_zeros 0 3, np_zeros 0 1) = Inr (c', A', b') \<and>
     ncols c' = 3 + 3 \<and>
     rws c' = [[0, 0, 0, - 1, - 1, - 1]] \<and>
     ncols A' = 3 + 3 \<and>
     nrows A' = 3 \<and>
     nrows b' = 3"
  using costly_single_step_counts[of
      "\<lparr>shape0 = 3, shape1 = 2, shape2 = 3,
        cells = [[[0, 1, 0], [1, 0, 0]], [[0, 0, 1], [0, 1, 0]], [[0, 0, 1], [1, 0, 0]]]\<rparr>"
      "np_identity 3" "np_zeros 1 3" "np_zeros 0 3" "np_zeros 0 1" "[0, 0, 0]"]
  by (simp add: wf_tensor_def lp_inv_def np_zeros_def nrows_def np_identity_def
      numeral_3_eq_3)

subsection \<open>Rounding to a double\<close>

lemma pow2_powr: "pow2 e = 2 powr of_int e"
  by (simp add: pow2_def powr_int)

lemma pow2_pos [simp]: "0 < pow2 e"
  by (simp add: pow2_def)










text \<open>The rounding of a positive real.\<close>

lemma round_double_pos:
  assumes "0 < a"
  shows "round_double a =
           of_int (py_round (a * pow2 (52 - \<lfloor>log 2 a\<rfloor>))) * pow2 (\<lfloor>log 2 a\<rfloor> - 52)"
  using assms by (simp add: round_double_def Let_def)

lemma round_double_neg:
  assumes "a < 0"
  shows "round_double a = - round_double (- a)"
  using assms by (simp add: round_double_def Let_def)

lemma round_double_zero [simp]: "round_double 0 = 0"
  by (simp add: round_double_def)







text \<open>Evaluation: the binade of a positive real is found by its two bounds.\<close>

lemma round_double_binade:
  assumes "pow2 e \<le> a" "a < pow2 (e + 1)"
  shows "round_double a = of_int (py_round (a * pow2 (52 - e))) * pow2 (e - 52)"
proof -
  have a: "0 < a" using assms(1) pow2_pos[of e] by linarith
  have "\<lfloor>log 2 a\<rfloor> = e"
    using floor_log_eq_powr_iff[of a 2 e] a assms by (simp add: pow2_powr)
  with round_double_pos[OF a] show ?thesis by simp
qed

lemma round_double_one [simp]: "round_double 1 = 1"
  using round_double_binade[of 0 1] by (simp add: pow2_def py_round_def)

lemma round_double_minus_one [simp]: "round_double (- 1) = - 1"
  using round_double_neg[of "- 1"] by simp

lemma round_double_two [simp]: "round_double 2 = 2"
  using round_double_binade[of 1 2] by (simp add: pow2_def py_round_def)

lemma round_double_half [simp]: "round_double (1 / 2) = 1 / 2"
  using round_double_binade[of "- 1" "1 / 2"] by (simp add: pow2_def py_round_def)







lemma for_each_preserves:
  assumes "for_each f is s = Inr s'" and "P s"
    and "\<And>i s s'. P s \<Longrightarrow> f i s = Inr s' \<Longrightarrow> P s'"
  shows "P s'"
  using assms(1,2)
proof (induction "is" arbitrary: s)
  case Nil
  then show ?case by simp
next
  case (Cons i "is")
  from Cons.prems(1) obtain s1 where s1: "f i s = Inr s1" "for_each f is s1 = Inr s'"
    by (auto simp: bind_err_eq_Inr)
  from assms(3)[OF Cons.prems(2) s1(1)] have "P s1" .
  from Cons.IH[OF s1(2) this] show ?case .
qed

lemma l1norm_step_objective: "l1norm_step off i (c, A, b) = Inr (c', A', b') \<Longrightarrow> c' = c"
  by (auto simp: l1norm_step_def bind_err_eq_Inr)

lemma add_l1norm_objective_row:
  assumes "add_l1norm_constraints n l1 t = Inr (c', A', b')"
  shows "\<exists>c0. rws c' = [c0]"
proof -
  obtain c A b where t: "t = (c, A, b)" by (cases t)
  from assms t obtain c1 A1 where
    c1: "np_hstack c (scale l1 (np_ones 1 n)) = Inr c1"
    and loop: "for_each (l1norm_step (ncols c1 - n)) [0..<n] (c1, A1, b) = Inr (c', A', b')"
    by (auto simp: add_l1norm_constraints_def bind_err_eq_Inr Let_def)
  from c1 have "\<exists>c0. rws c1 = [c0]"
    by (cases "rws c") (auto simp: np_hstack_def nrows_def scale_def np_ones_def split: if_splits)
  then have "\<exists>c0. rws (fst (c1, A1, b)) = [c0]" by simp
  from for_each_preserves[OF loop, of "\<lambda>t. \<exists>c0. rws (fst t) = [c0]", OF this]
  show ?thesis using l1norm_step_objective by fastforce
qed

lemma compose_lp_objective_row:
  assumes "compose_lp T discount_factor l1 r_max linalg_inv = Inr (c, A, b)"
  shows "\<exists>c0. first_row c = Inr c0"
proof -
  from assms obtain t3 where "add_l1norm_constraints (shape0 T) l1 t3 = Inr (c, A, b)"
    by (auto simp: compose_lp_def Let_def bind_err_eq_Inr)
  from add_l1norm_objective_row[OF this] show ?thesis by (auto simp: first_row_def)
qed

lemma np_min_eq_Min: "vals \<noteq> [] \<Longrightarrow> np_min vals = Inr (Min (set vals))"
  by (cases vals) (simp_all add: np_min_def Min.set_eq_fold[symmetric])

lemma np_max_eq_Max: "vals \<noteq> [] \<Longrightarrow> np_max vals = Inr (Max (set vals))"
  by (cases vals) (simp_all add: np_max_def Max.set_eq_fold[symmetric])

lemma normalize_cases:
  assumes "vals \<noteq> []"
  shows "normalize fl vals =
     (if fl (Max (set vals) - Min (set vals)) = 0 then Inl ZeroDivisionError
      else Inr (map (\<lambda>v. fl (fl (v - Min (set vals)) *
                               fl (1 / fl (Max (set vals) - Min (set vals))))) vals))"
  using assms by (simp add: normalize_def np_min_eq_Min np_max_eq_Max Let_def)

lemma linear_programming_after_compose:
  assumes "compose_lp T discount_factor l1 r_max linalg_inv = Inr (c, A, b)"
    and "first_row c = Inr c0"
  shows "linear_programming T discount_factor l1 r_max linalg_inv fl solver =
           bind_err (solution_prefix (solver c0 A b) (shape0 T)) (\<lambda>vals.
           bind_err (normalize fl vals) (\<lambda>normalized.
           Inr (map (\<lambda>v. fl (r_max * v)) normalized, solver c0 A b)))"
  using assms by (simp add: linear_programming_def Let_def)


subsection \<open>The rescaling of the tabular formulator\<close>


text \<open>The LP that the formulator composes for two states and two actions.\<close>

lemma compose_lp_two_states:
  "compose_lp \<lparr>shape0 = 2, shape1 = 2, shape2 = 2, cells = [[[0, 1], [1, 0]], [[0, 1], [1, 0]]]\<rparr>
     0 l1 r_max Inr =
   Inr (\<lparr>ncols = 6, rws = [[0, 0, - 1, - 1, l1, l1]]\<rparr>,
        \<lparr>ncols = 6,
         rws = [[0, 0, 0, 0, 0, 0], [0, 0, 0, 0, 0, 0], [0, 0, 1, 0, 0, 0],
                [0, 0, 0, 1, 0, 0], [1, 0, 0, 0, 0, 0], [0, 1, 0, 0, 0, 0],
                [- 1, 0, 0, 0, 0, 0], [1, 0, 0, 0, - 1, 0],
                [0, - 1, 0, 0, 0, 0], [0, 1, 0, 0, 0, - 1]]\<rparr>,
        \<lparr>ncols = 1,
         rws = [[0], [0], [0], [0], [r_max], [r_max], [0], [0], [0], [0]]\<rparr>)"
  by (simp add: compose_lp_def action_slice_def np_sub_def np_identity_def scale_def nrows_def
      add_optimal_policy_constraints_def margin_rows_def np_matmul_def append_rows_def
      np_vstack_def np_zeros_def dot_def column_def add_costly_single_step_constraints_def
      css_rows_def np_hstack_def np_ones_def np_zeros_int_def add_rmax_constraints_def
      rmax_step_def py_setitem_def row_mat_def add_l1norm_constraints_def l1norm_step_def
      upt_rec[of 0] upt_rec[of "Suc 0"] numeral_2_eq_2)

text \<open>Its run on a solver's result whose solution has the first two coordinates \<open>x0, x1\<close>.\<close>

lemma linear_programming_two_states:
  assumes "res_x (solver [0, 0, - 1, - 1, l1, l1]
             \<lparr>ncols = 6,
              rws = [[0, 0, 0, 0, 0, 0], [0, 0, 0, 0, 0, 0], [0, 0, 1, 0, 0, 0],
                     [0, 0, 0, 1, 0, 0], [1, 0, 0, 0, 0, 0], [0, 1, 0, 0, 0, 0],
                     [- 1, 0, 0, 0, 0, 0], [1, 0, 0, 0, - 1, 0],
                     [0, - 1, 0, 0, 0, 0], [0, 1, 0, 0, 0, - 1]]\<rparr>
             \<lparr>ncols = 1,
              rws = [[0], [0], [0], [0], [r_max], [r_max], [0], [0], [0], [0]]\<rparr>)
           = Some (x0 # x1 # xs)"
  shows "linear_programming \<lparr>shape0 = 2, shape1 = 2, shape2 = 2, cells = [[[0, 1], [1, 0]], [[0, 1], [1, 0]]]\<rparr>
           0 l1 r_max Inr fl solver =
         (if fl (max x0 x1 - min x0 x1) = 0 then Inl ZeroDivisionError
          else Inr ([fl (r_max * fl (fl (x0 - min x0 x1) * fl (1 / fl (max x0 x1 - min x0 x1)))),
                     fl (r_max * fl (fl (x1 - min x0 x1) * fl (1 / fl (max x0 x1 - min x0 x1))))],
                    solver [0, 0, - 1, - 1, l1, l1]
                      \<lparr>ncols = 6,
                       rws = [[0, 0, 0, 0, 0, 0], [0, 0, 0, 0, 0, 0], [0, 0, 1, 0, 0, 0],
                              [0, 0, 0, 1, 0, 0], [1, 0, 0, 0, 0, 0], [0, 1, 0, 0, 0, 0],
                              [- 1, 0, 0, 0, 0, 0], [1, 0, 0, 0, - 1, 0],
                              [0, - 1, 0, 0, 0, 0], [0, 1, 0, 0, 0, - 1]]\<rparr>
                      \<lparr>ncols = 1,
                       rws = [[0], [0], [0], [0], [r_max], [r_max], [0], [0], [0], [0]]\<rparr>))"
proof -
  have c0: "first_row \<lparr>ncols = 6, rws = [[0, 0, - 1, - 1, l1, l1 :: real]]\<rparr>
              = Inr [0, 0, - 1, - 1, l1, l1]"
    by (simp add: first_row_def)
  show ?thesis
    unfolding linear_programming_after_compose[OF compose_lp_two_states c0]
    using assms
    by (simp add: solution_prefix_def normalize_def np_min_def np_max_def Let_def
        numeral_2_eq_2 min.commute max.commute)
qed

text \<open>
  Claim C3, amended. Once the LP is composed, the objective row is handed to the solver,
  and for a solution whose first \<open>n\<close> coordinates \<open>vals\<close> are not empty the formulator
  returns \<open>r_max * (v - min) / (max - min)\<close> for each \<open>v\<close> of \<open>vals\<close> when
  \<open>max \<noteq> min\<close>; when the solution is constant the division by \<open>max - min = 0\<close> is
  performed without a guard and the formulator ends with ZeroDivisionError (no
  DegenerateNormalization error is raised). This holds with every operation rounded by
  \<open>fl\<close> (the division being a multiplication by the reciprocal) and, as the second
  equation says, in exact arithmetic.
\<close>

theorem rescale_min_max:
  assumes "compose_lp T discount_factor l1 r_max linalg_inv = Inr (c, A, b)"
  shows "\<exists>c0. first_row c = Inr c0 \<and>
     (\<forall>xs. res_x (solver c0 A b) = Some xs \<longrightarrow> take (shape0 T) xs \<noteq> [] \<longrightarrow>
        linear_programming T discount_factor l1 r_max linalg_inv fl solver =
          (let vals = take (shape0 T) xs; lo = Min (set vals); hi = Max (set vals)
           in if fl (hi - lo) = 0 then Inl ZeroDivisionError
              else Inr (map (\<lambda>v. fl (r_max * fl (fl (v - lo) * fl (1 / fl (hi - lo))))) vals,
                        solver c0 A b)) \<and>
        linear_programming T discount_factor l1 r_max linalg_inv (\<lambda>x. x) solver =
          (let vals = take (shape0 T) xs; lo = Min (set vals); hi = Max (set vals)
           in if hi = lo then Inl ZeroDivisionError
              else Inr (map (\<lambda>v. r_max * ((v - lo) / (hi - lo))) vals, solver c0 A b)))"
proof -
  from compose_lp_objective_row[OF assms] obtain c0 where c0: "first_row c = Inr c0" by blast
  show ?thesis
    using c0 linear_programming_after_compose[OF assms c0, of _ solver]
    by (auto simp: solution_prefix_def normalize_cases Let_def o_def)
qed

theorem rescale_min_max_witness:
  "compose_lp \<lparr>shape0 = 2, shape1 = 2, shape2 = 2, cells = [[[0, 1], [1, 0]], [[0, 1], [1, 0]]]\<rparr>
     0 0 1 Inr =
   Inr (\<lparr>ncols = 6, rws = [[0, 0, - 1, - 1, 0, 0]]\<rparr>,
        \<lparr>ncols = 6,
         rws = [[0, 0, 0, 0, 0, 0], [0, 0, 0, 0, 0, 0], [0, 0, 1, 0, 0, 0],
                [0, 0, 0, 1, 0, 0], [1, 0, 0, 0, 0, 0], [0, 1, 0, 0, 0, 0],
                [- 1, 0, 0, 0, 0, 0], [1, 0, 0, 0, - 1, 0],
                [0, - 1, 0, 0, 0, 0], [0, 1, 0, 0, 0, - 1]]\<rparr>,
        \<lparr>ncols = 1,
         rws = [[0], [0], [0], [0], [1], [1], [0], [0], [0], [0]]\<rparr>) \<and>
   first_row \<lparr>ncols = 6, rws = [[0, 0, - 1, - 1, 0, 0]]\<rparr> = Inr [0, 0, - 1, - 1, 0, 0] \<and>
   linear_programming \<lparr>shape0 = 2, shape1 = 2, shape2 = 2, cells = [[[0, 1], [1, 0]], [[0, 1], [1, 0]]]\<rparr>
     0 0 1 Inr round_double
     (\<lambda>c A b. \<lparr>res_status = Optimal, res_x = Some [1 / 4, 3 / 4, 0, 0, 1 / 4, 3 / 4]\<rparr>)
   = Inr ([0, 1], \<lparr>res_status = Optimal, res_x = Some [1 / 4, 3 / 4, 0, 0, 1 / 4, 3 / 4]\<rparr>)"
proof -
  let ?T = "\<lparr>shape0 = 2, shape1 = 2, shape2 = 2, cells = [[[0, 1], [1, 0]], [[0, 1], [1, 0]]]\<rparr>"
  let ?S = "\<lambda>(c::real list) (A::mat) (b::mat).
              \<lparr>res_status = Optimal, res_x = Some [1 / 4, 3 / 4, 0, 0, 1 / 4, 3 / 4 :: real]\<rparr>"
  let ?c = "\<lparr>ncols = 6, rws = [[0, 0, - 1, - 1, 0, 0 :: real]]\<rparr>"
  have cab: "compose_lp ?T 0 0 1 Inr = Inr (\<lparr>ncols = 6, rws = [[0, 0, - 1, - 1, 0, 0]]\<rparr>,
        \<lparr>ncols = 6,
         rws = [[0, 0, 0, 0, 0, 0], [0, 0, 0, 0, 0, 0], [0, 0, 1, 0, 0, 0],
                [0, 0, 0, 1, 0, 0], [1, 0, 0, 0, 0, 0], [0, 1, 0, 0, 0, 0],
                [- 1, 0, 0, 0, 0, 0], [1, 0, 0, 0, - 1, 0],
                [0, - 1, 0, 0, 0, 0], [0, 1, 0, 0, 0, - 1]]\<rparr>,
        \<lparr>ncols = 1,
         rws = [[0], [0], [0], [0], [1], [1], [0], [0], [0], [0]]\<rparr>)"
    by (rule compose_lp_two_states)
  have c0: "first_row ?c = Inr [0, 0, - 1, - 1, 0, 0]" by (simp add: first_row_def)
  from rescale_min_max[OF cab, of ?S round_double] c0
  have "linear_programming ?T 0 0 1 Inr round_double ?S =
          (let vals = take (shape0 ?T) [1 / 4, 3 / 4, 0, 0, 1 / 4, 3 / 4 :: real];
               lo = Min (set vals); hi = Max (set vals)
           in if round_double (hi - lo) = 0 then Inl ZeroDivisionError
              else Inr (map (\<lambda>v. round_double (1 * round_double (round_double (v - lo) *
                                      round_double (1 / round_double (hi - lo))))) vals,
                        ?S [0, 0, - 1, - 1, 0, 0] undefined undefined))"
    by (simp add: numeral_2_eq_2)
  then have "linear_programming ?T 0 0 1 Inr round_double ?S
               = Inr ([0, 1], ?S [0, 0, - 1, - 1, 0, 0] undefined undefined)"
    by (simp add: Let_def numeral_2_eq_2)
  with cab c0 show ?thesis by simp
qed

text \<open>
  Claim C3 as stated fails: on a constant solution the formulator does not report a
  DegenerateNormalization error, it performs the division by \<open>max - min = 0\<close> and ends
  with the ZeroDivisionError of that division.
\<close>

theorem degenerate_normalization_counterexample:
  "linear_programming \<lparr>shape0 = 2, shape1 = 2, shape2 = 2, cells = [[[0, 1], [1, 0]], [[0, 1], [1, 0]]]\<rparr>
     0 0 1 Inr round_double
     (\<lambda>c A b. \<lparr>res_status = Optimal, res_x = Some [1, 1, 0, 0, 1, 1]\<rparr>)
   = Inl ZeroDivisionError \<and>
   linear_programming \<lparr>shape0 = 2, shape1 = 2, shape2 = 2, cells = [[[0, 1], [1, 0]], [[0, 1], [1, 0]]]\<rparr>
     0 0 1 Inr round_double
     (\<lambda>c A b. \<lparr>res_status = Optimal, res_x = Some [1, 1, 0, 0, 1, 1]\<rparr>)
   \<noteq> Inl DegenerateNormalization"
  using linear_programming_two_states[of
      "\<lambda>c A b. \<lparr>res_status = Optimal, res_x = Some [1, 1, 0, 0, 1, 1]\<rparr>"
      0 1 1 1 "[0, 0, 1, 1]" round_double]
  by simp


text \<open>
  The configuration has \<open>r_max > 0\<close>, which the code does not check: with a negative
  \<open>r_max\<close> the endpoints are exchanged, also in exact arithmetic.
\<close>

lemma negative_r_max_exchanges_endpoints:
  "linear_programming \<lparr>shape0 = 2, shape1 = 2, shape2 = 2, cells = [[[0, 1], [1, 0]], [[0, 1], [1, 0]]]\<rparr>
     0 0 (- 1) Inr (\<lambda>x. x)
     (\<lambda>c A b. \<lparr>res_status = Optimal, res_x = Some [0, 1, 0, 0, 0, 1]\<rparr>)
   = Inr ([0, - 1], \<lparr>res_status = Optimal, res_x = Some [0, 1, 0, 0, 0, 1]\<rparr>)"
  using linear_programming_two_states[of
      "\<lambda>c A b. \<lparr>res_status = Optimal, res_x = Some [0, 1, 0, 0, 0, 1]\<rparr>"
      0 "- 1" 0 1 "[0, 0, 0, 1]" "\<lambda>x. x"]
  by simp



subsection \<open>The solver's status\<close>

lemma solution_prefix_cong:
  "res_x r = res_x r' \<Longrightarrow> solution_prefix r n = solution_prefix r' n"
  by (simp add: solution_prefix_def)

lemma linear_programming_status_free:
  assumes "\<And>c A b. res_x (S c A b) = res_x (S' c A b)"
  shows "map_sum id fst (linear_programming T discount_factor l1 r_max linalg_inv fl S) =
         map_sum id fst (linear_programming T discount_factor l1 r_max linalg_inv fl S')"
proof (cases "compose_lp T discount_factor l1 r_max linalg_inv")
  case (Inl e)
  then show ?thesis by (simp add: linear_programming_def)
next
  case (Inr t)
  obtain c A b where t: "t = (c, A, b)" by (cases t)
  show ?thesis
  proof (cases "first_row c")
    case (Inl e)
    then show ?thesis using Inr t by (simp add: linear_programming_def)
  next
    case c0: (Inr c0)
    have eq: "solution_prefix (S c0 A b) (shape0 T) = solution_prefix (S' c0 A b) (shape0 T)"
      by (rule solution_prefix_cong) (rule assms)
    show ?thesis
      using Inr t c0 eq
      by (cases "solution_prefix (S' c0 A b) (shape0 T)")
         (auto simp: linear_programming_def Let_def bind_err_def split: sum.splits)
  qed
qed

lemma large_linear_programming_status_free:
  assumes "\<And>c A b. res_x (S c A b) = res_x (S' c A b)"
  shows "map_sum id fst (large_linear_programming state_sample num_actions otf bvf p nts g S) =
         map_sum id fst (large_linear_programming state_sample num_actions otf bvf p nts g S')"
proof -
  have eq: "\<And>c0 A b n. solution_prefix (S c0 A b) n = solution_prefix (S' c0 A b) n"
    by (rule solution_prefix_cong) (rule assms)
  show ?thesis
    by (auto simp: large_linear_programming_def Let_def bind_err_def eq
        split: sum.splits list.splits prod.splits)
qed

lemma tlp_iteration_status_free:
  assumes "\<And>c A b. res_x (S c A b) = res_x (S' c A b)"
  shows "tlp_iteration T phi gamma opt_pol p m H tol S start_state ev =
         tlp_iteration T phi gamma opt_pol p m H tol S' start_state ev"
proof -
  have eq: "\<And>c0 A b n. solution_prefix (S c0 A b) n = solution_prefix (S' c0 A b) n"
    by (rule solution_prefix_cong) (rule assms)
  show ?thesis
    by (rule ext) (simp add: tlp_iteration_def tlp_solve_def Let_def eq)
qed

text \<open>
  Claim C1 as stated fails: with a status that is not optimal and a solution vector
  present, the tabular formulator returns the rewards extracted from that vector.
\<close>

theorem status_ignored_counterexample:
  "res_status (\<lparr>res_status = NumericalError, res_x = Some [0, 1, 0, 0, 0, 1]\<rparr>) \<noteq> Optimal \<and>
   linear_programming \<lparr>shape0 = 2, shape1 = 2, shape2 = 2,
       cells = [[[0, 1], [1, 0]], [[0, 1], [1, 0]]]\<rparr> 0 0 1 Inr round_double
     (\<lambda>c A b. \<lparr>res_status = NumericalError, res_x = Some [0, 1, 0, 0, 0, 1]\<rparr>)
   = Inr ([0, 1], \<lparr>res_status = NumericalError, res_x = Some [0, 1, 0, 0, 0, 1]\<rparr>)"
  using linear_programming_two_states[of
      "\<lambda>c A b. \<lparr>res_status = NumericalError, res_x = Some [0, 1, 0, 0, 0, 1]\<rparr>"
      0 1 0 1 "[0, 0, 0, 1]" round_double]
  by simp

text \<open>What the tabular and the sampled formulator return beside the vector.\<close>

lemma linear_programming_returns_result:
  assumes "linear_programming T discount_factor l1 r_max linalg_inv fl S = Inr (rewards, res)"
  shows "\<exists>c A b c0. compose_lp T discount_factor l1 r_max linalg_inv = Inr (c, A, b) \<and>
           first_row c = Inr c0 \<and> res = S c0 A b"
  using assms
  by (auto simp: linear_programming_def bind_err_eq_Inr Let_def split: prod.splits)

lemma large_linear_programming_returns_result:
  assumes "large_linear_programming state_sample num_actions otf bvf pc nts g S
             = Inr (alpha_vector, res)"
  shows "\<exists>s0 rest c A b g1 c0. state_sample = s0 # rest \<and>
           large_compose_lp state_sample num_actions otf bvf (length (bvf s0)) pc nts g
             = Inr ((c, A, b), g1) \<and>
           first_row c = Inr c0 \<and> res = S c0 A b \<and>
           solution_prefix res (length (bvf s0)) = Inr alpha_vector"
  using assms
  by (auto simp: large_linear_programming_def bind_err_eq_Inr Let_def
      split: if_splits list.splits prod.splits)

text \<open>
  Claim C1, amended. No formulator reads the status of the solver's result: two solvers
  that report the same solution vectors, under whatever statuses, lead each formulator to
  the same outcome, be it the returned reward or weight vector or the error raised. The
  second component of what the tabular and the sampled formulator return is the result
  object of the solver, as the solver gave it for the composed LP, whatever its status.
\<close>

theorem formulators_ignore_status:
  assumes "\<forall>c A b. res_x (S c A b) = res_x (S' c A b)"
  shows "map_sum id fst (linear_programming T discount_factor l1 r_max linalg_inv fl S) =
         map_sum id fst (linear_programming T discount_factor l1 r_max linalg_inv fl S') \<and>
         map_sum id fst (large_linear_programming state_sample num_actions otf bvf pc nts g S) =
         map_sum id fst (large_linear_programming state_sample num_actions otf bvf pc nts g S') \<and>
         trajectory_linear_programming fuel zeta Tr S_bounds Act phi gamma opt_pol p m H tol
           uniform choice g' S =
         trajectory_linear_programming fuel zeta Tr S_bounds Act phi gamma opt_pol p m H tol
           uniform choice g' S' \<and>
         (\<forall>rewards res.
            linear_programming T discount_factor l1 r_max linalg_inv fl S = Inr (rewards, res) \<longrightarrow>
            (\<exists>c A b c0. compose_lp T discount_factor l1 r_max linalg_inv = Inr (c, A, b) \<and>
               first_row c = Inr c0 \<and> res = S c0 A b)) \<and>
         (\<forall>alpha_vector res.
            large_linear_programming state_sample num_actions otf bvf pc nts g S
              = Inr (alpha_vector, res) \<longrightarrow>
            (\<exists>s0 rest c A b g1 c0. state_sample = s0 # rest \<and>
               large_compose_lp state_sample num_actions otf bvf (length (bvf s0)) pc nts g
                 = Inr ((c, A, b), g1) \<and>
               first_row c = Inr c0 \<and> res = S c0 A b))"
proof -
  have same: "\<And>c A b. res_x (S c A b) = res_x (S' c A b)"
    using assms by simp
  have "trajectory_linear_programming fuel zeta Tr S_bounds Act phi gamma opt_pol p m H tol
           uniform choice g' S =
        trajectory_linear_programming fuel zeta Tr S_bounds Act phi gamma opt_pol p m H tol
           uniform choice g' S'"
    by (simp add: trajectory_linear_programming_def tlp_iteration_status_free[of S S', OF same]
        split: sum.splits prod.splits)
  moreover have "\<forall>rewards res.
      linear_programming T discount_factor l1 r_max linalg_inv fl S = Inr (rewards, res) \<longrightarrow>
      (\<exists>c A b c0. compose_lp T discount_factor l1 r_max linalg_inv = Inr (c, A, b) \<and>
         first_row c = Inr c0 \<and> res = S c0 A b)"
    using linear_programming_returns_result by blast
  moreover have "\<forall>alpha_vector res.
      large_linear_programming state_sample num_actions otf bvf pc nts g S
        = Inr (alpha_vector, res) \<longrightarrow>
      (\<exists>s0 rest c A b g1 c0. state_sample = s0 # rest \<and>
         large_compose_lp state_sample num_actions otf bvf (length (bvf s0)) pc nts g
           = Inr ((c, A, b), g1) \<and>
         first_row c = Inr c0 \<and> res = S c0 A b)"
    using large_linear_programming_returns_result[of state_sample num_actions otf bvf pc nts g S]
    by blast
  ultimately show ?thesis
    using linear_programming_status_free[of S S', OF same, of T discount_factor l1 r_max linalg_inv fl]
      large_linear_programming_status_free[of S S', OF same]
    by simp
qed

theorem formulators_ignore_status_witness:
  "(\<forall>c A b. res_x ((\<lambda>c A b. \<lparr>res_status = Infeasible, res_x = Some [0, 1, 0, 0, 0, 1]\<rparr>) c A b)
            = res_x ((\<lambda>c A b. \<lparr>res_status = Optimal, res_x = Some [0, 1, 0, 0, 0, 1]\<rparr>) c A b)) \<and>
   map_sum id fst
     (linear_programming \<lparr>shape0 = 2, shape1 = 2, shape2 = 2,
         cells = [[[0, 1], [1, 0]], [[0, 1], [1, 0]]]\<rparr> 0 0 1 Inr round_double
       (\<lambda>c A b. \<lparr>res_status = Infeasible, res_x = Some [0, 1, 0, 0, 0, 1]\<rparr>)) =
   map_sum id fst
     (linear_programming \<lparr>shape0 = 2, shape1 = 2, shape2 = 2,
         cells = [[[0, 1], [1, 0]], [[0, 1], [1, 0]]]\<rparr> 0 0 1 Inr round_double
       (\<lambda>c A b. \<lparr>res_status = Optimal, res_x = Some [0, 1, 0, 0, 0, 1]\<rparr>)) \<and>
   map_sum id fst
     (large_linear_programming [0 :: nat] 2 (\<lambda>(g :: unit) s a. (s, g)) (\<lambda>s. [1]) 2 1 ()
       (\<lambda>c A b. \<lparr>res_status = Infeasible, res_x = Some [0, 1, 0, 0, 0, 1]\<rparr>)) =
   map_sum id fst
     (large_linear_programming [0 :: nat] 2 (\<lambda>(g :: unit) s a. (s, g)) (\<lambda>s. [1]) 2 1 ()
       (\<lambda>c A b. \<lparr>res_status = Optimal, res_x = Some [0, 1, 0, 0, 0, 1]\<rparr>)) \<and>
   trajectory_linear_programming 1 [[([0], 0 :: nat)]] (\<lambda>(g :: unit) s a. ((s, True), g))
       [(0, 1)] [0] [\<lambda>s. 1] (1 / 2) (\<lambda>\<alpha> s. Inr 0) 2 1 1 1
       (\<lambda>g d. (replicate d (3 / 4), g)) (\<lambda>g A shape. (\<lambda>idx. 0, g)) ()
       (\<lambda>c A b. \<lparr>res_status = Infeasible, res_x = Some [0, 1, 0, 0, 0, 1]\<rparr>) =
   trajectory_linear_programming 1 [[([0], 0 :: nat)]] (\<lambda>(g :: unit) s a. ((s, True), g))
       [(0, 1)] [0] [\<lambda>s. 1] (1 / 2) (\<lambda>\<alpha> s. Inr 0) 2 1 1 1
       (\<lambda>g d. (replicate d (3 / 4), g)) (\<lambda>g A shape. (\<lambda>idx. 0, g)) ()
       (\<lambda>c A b. \<lparr>res_status = Optimal, res_x = Some [0, 1, 0, 0, 0, 1]\<rparr>) \<and>
   linear_programming \<lparr>shape0 = 2, shape1 = 2, shape2 = 2,
         cells = [[[0, 1], [1, 0]], [[0, 1], [1, 0]]]\<rparr> 0 0 1 Inr round_double
       (\<lambda>c A b. \<lparr>res_status = Infeasible, res_x = Some [0, 1, 0, 0, 0, 1]\<rparr>)
     = Inr ([0, 1], \<lparr>res_status = Infeasible, res_x = Some [0, 1, 0, 0, 0, 1]\<rparr>) \<and>
   (\<exists>c A b c0.
      compose_lp \<lparr>shape0 = 2, shape1 = 2, shape2 = 2,
         cells = [[[0, 1], [1, 0]], [[0, 1], [1, 0]]]\<rparr> 0 0 1 Inr = Inr (c, A, b) \<and>
      first_row c = Inr c0 \<and>
      \<lparr>res_status = Infeasible, res_x = Some [0, 1, 0, 0, 0, 1]\<rparr> =
        (\<lambda>c A b. \<lparr>res_status = Infeasible, res_x = Some [0, 1, 0, 0, 0, 1]\<rparr>) c0 A b) \<and>
   large_linear_programming [0 :: nat] 2 (\<lambda>(g :: unit) s a. (s, g)) (\<lambda>s. [1]) 2 1 ()
       (\<lambda>c A b. \<lparr>res_status = Infeasible, res_x = Some [0, 1, 0, 0, 0, 1]\<rparr>)
     = Inr ([0], \<lparr>res_status = Infeasible, res_x = Some [0, 1, 0, 0, 0, 1]\<rparr>) \<and>
   (\<exists>s0 rest c A b g1 c0. [0 :: nat] = s0 # rest \<and>
      large_compose_lp [0 :: nat] 2 (\<lambda>(g :: unit) s a. (s, g)) (\<lambda>s. [1])
          (length ((\<lambda>s :: nat. [1 :: real]) s0)) 2 1 () = Inr ((c, A, b), g1) \<and>
      first_row c = Inr c0 \<and>
      \<lparr>res_status = Infeasible, res_x = Some [0, 1, 0, 0, 0, 1]\<rparr> =
        (\<lambda>c A b. \<lparr>res_status = Infeasible, res_x = Some [0, 1, 0, 0, 0, 1]\<rparr>) c0 A b)"
proof -
  let ?S = "\<lambda>(c :: real list) (A :: mat) (b :: mat).
              \<lparr>res_status = Infeasible, res_x = Some [0, 1, 0, 0, 0, 1 :: real]\<rparr>"
  let ?S' = "\<lambda>(c :: real list) (A :: mat) (b :: mat).
              \<lparr>res_status = Optimal, res_x = Some [0, 1, 0, 0, 0, 1 :: real]\<rparr>"
  let ?T = "\<lparr>shape0 = 2, shape1 = 2, shape2 = 2,
         cells = [[[0, 1], [1, 0]], [[0, 1], [1, 0]]]\<rparr>"
  have same: "\<forall>c A b. res_x (?S c A b) = res_x (?S' c A b)" by simp
  have tab: "linear_programming ?T 0 0 1 Inr round_double ?S
               = Inr ([0, 1], \<lparr>res_status = Infeasible, res_x = Some [0, 1, 0, 0, 0, 1]\<rparr>)"
    using linear_programming_two_states[of ?S 0 1 0 1 "[0, 0, 0, 1]" round_double]
    by simp
  have sam: "large_linear_programming [0 :: nat] 2 (\<lambda>(g :: unit) s a. (s, g)) (\<lambda>s. [1]) 2 1 () ?S
               = Inr ([0], \<lparr>res_status = Infeasible, res_x = Some [0, 1, 0, 0, 0, 1]\<rparr>)"
    by code_simp
  note all = formulators_ignore_status[of ?S ?S' ?T 0 0 1 Inr round_double
      "[0 :: nat]" 2 "\<lambda>(g :: unit) s a. (s, g)" "\<lambda>s. [1]" 2 1 "()", OF same]
  show ?thesis
    using same tab sam all by simp
qed

subsection \<open>The check of the starting states\<close>

text \<open>
  Claim C5: with two or more demonstrations the formulator should warn about differing
  start states and continue. It does not continue: for every \<open>zeta\<close> with at least
  two demonstrations (whatever their start states) the check raises TypeError, before any
  warning, whatever the fuel.
\<close>

theorem start_state_check_raises:
  "trajectory_linear_programming fuel (((s0, a0) # steps) # second # others) T S_bounds A phi
     gamma opt_pol p m H tol uniform choice g solver = Some (Inl TypeError)"
  by (simp add: trajectory_linear_programming_def tlp_init_def)

subsection \<open>The empirical value vector\<close>

lemma fold_add_sum_list:
  fixes f :: "'i \<Rightarrow> real"
  shows "fold (\<lambda>j acc. acc + f j) xs a = a + sum_list (map f xs)"
  by (induction xs arbitrary: a) simp_all

lemma length_emperical_trajectory_value [simp]:
  "length (emperical_trajectory_value phi gamma trajectory) = length phi"
  by (simp add: emperical_trajectory_value_def)

lemma emperical_trajectory_value_nth:
  assumes "i < length phi"
  shows "emperical_trajectory_value phi gamma trajectory ! i =
           (\<Sum>t\<leftarrow>[0..<length trajectory]. gamma ^ t * (phi ! i) (fst (trajectory ! t)))"
  using assms by (simp add: emperical_trajectory_value_def fold_add_sum_list)

lemma fold_value_vectors:
  assumes "length v0 = length phi"
  shows "length (fold (\<lambda>trajectory value_vector.
                    map2 (+) value_vector (emperical_trajectory_value phi gamma trajectory))
                 zeta v0) = length phi \<and>
         (\<forall>i < length phi.
            fold (\<lambda>trajectory value_vector.
                    map2 (+) value_vector (emperical_trajectory_value phi gamma trajectory))
                 zeta v0 ! i =
            v0 ! i + (\<Sum>trajectory\<leftarrow>zeta. emperical_trajectory_value phi gamma trajectory ! i))"
  using assms
proof (induction zeta arbitrary: v0)
  case Nil
  then show ?case by simp
next
  case (Cons trajectory zeta)
  let ?v1 = "map2 (+) v0 (emperical_trajectory_value phi gamma trajectory)"
  have len: "length ?v1 = length phi" using Cons.prems by simp
  have nth: "\<And>i. i < length phi \<Longrightarrow>
               ?v1 ! i = v0 ! i + emperical_trajectory_value phi gamma trajectory ! i"
    using Cons.prems by simp
  from Cons.IH[OF len] nth show ?case by (simp add: add.assoc)
qed

lemma tlp_init_expert_value:
  assumes "tlp_init zeta T S_bounds A phi gamma m H uniform choice g = Inr (start_state, v_E, \<sigma>0)"
  shows "emperical_policy_value phi gamma zeta = Inr v_E"
proof -
  obtain u g1 where u: "uniform g (length phi) = (u, g1)" by (cases "uniform g (length phi)")
  obtain policy0 g2 where r: "random_policy choice A S_bounds 20 g1 = (policy0, g2)"
    by (cases "random_policy choice A S_bounds 20 g1")
  from assms u r show ?thesis
    by (auto simp: tlp_init_def Let_def bind_err_eq_Inr split: list.splits if_splits)
qed

text \<open>
  For every non-empty trajectory set \<open>zeta\<close>, every vector \<open>phi\<close> of \<open>d\<close> basis functions
  and every discount \<open>gamma\<close>, \<^verbatim>\<open>emperical_policy_value\<close> returns the vector of length \<open>d\<close>
  whose entry \<open>i\<close> is the sum over the trajectories of the sums over the time steps \<open>t\<close> of
  \<open>gamma ^ t * phi_i (s_t)\<close>, divided by the number of trajectories.
\<close>

lemma emperical_policy_value_formula:
  assumes ne: "zeta \<noteq> []"
  shows "\<exists>v. emperical_policy_value phi gamma zeta = Inr v \<and> length v = length phi \<and>
           (\<forall>i < length phi.
              v ! i = (\<Sum>trajectory\<leftarrow>zeta. \<Sum>t\<leftarrow>[0..<length trajectory].
                         gamma ^ t * (phi ! i) (fst (trajectory ! t))) / real (length zeta))"
proof -
  let ?sum = "fold (\<lambda>trajectory value_vector.
                    map2 (+) value_vector (emperical_trajectory_value phi gamma trajectory))
                 zeta (replicate (length phi) 0)"
  from fold_value_vectors[of "replicate (length phi) 0" phi gamma zeta]
  have len: "length ?sum = length phi"
    and nth: "\<And>i. i < length phi \<Longrightarrow>
       ?sum ! i = (\<Sum>trajectory\<leftarrow>zeta. emperical_trajectory_value phi gamma trajectory ! i)"
    by simp_all
  have val: "emperical_policy_value phi gamma zeta
               = Inr (map (\<lambda>v. v / real (length zeta)) ?sum)"
    using ne by (simp add: emperical_policy_value_def Let_def)
  have "\<forall>i < length phi. map (\<lambda>v. v / real (length zeta)) ?sum ! i =
          (\<Sum>trajectory\<leftarrow>zeta. \<Sum>t\<leftarrow>[0..<length trajectory].
                         gamma ^ t * (phi ! i) (fst (trajectory ! t))) / real (length zeta)"
    using len nth by (simp add: emperical_trajectory_value_nth)
  with val len show ?thesis by simp
qed

text \<open>The start of the function is left with a result only by a single demonstration.\<close>

lemma tlp_init_single_demonstration:
  assumes "tlp_init zeta T S_bounds A phi gamma m H uniform choice g = Inr r"
  shows "length zeta = 1"
  using assms
  by (auto simp: tlp_init_def Let_def split: list.splits if_splits)

text \<open>
  Claim C9: for every non-empty trajectory set the start of the formulator should compute
  the expert's value vector as the mean over the demonstrations of the discounted sums of
  the basis functions. \<^verbatim>\<open>emperical_policy_value\<close> computes that vector, but for two or more
  demonstrations the formulator never calls it: the check of the starting states raises
  TypeError before. So it is on the two demonstrations \<open>[[2], [4]]\<close> and \<open>[[6]]\<close>, whose
  value vector for the basis functions \<open>s\<^sub>0\<close> and \<open>1\<close> and the discount \<open>1/2\<close> is
  \<open>[5, 5/4]\<close>.
\<close>

theorem init_raises_before_expert_value:
  "tlp_init (((s0, a0) # steps) # second # others) T S_bounds A phi gamma m H uniform choice g
     = Inl TypeError \<and>
   tlp_init [[([2], 0 :: nat), ([4], 0)], [([6], 0)]] T' S_bounds' A' [\<lambda>s. s ! 0, \<lambda>s. 1] (1 / 2)
     m' H' uniform' choice' g' = Inl TypeError \<and>
   emperical_policy_value [\<lambda>s. s ! 0, \<lambda>s. 1] (1 / 2) [[([2], 0 :: nat), ([4], 0)], [([6], 0)]]
     = Inr [5, 5 / 4]"
  by (simp add: tlp_init_def emperical_policy_value_def emperical_trajectory_value_def)

subsection \<open>The rows of the L1 block\<close>

lemma dot_Nil [simp]: "dot [] v = 0" "dot u [] = 0"
  by (simp_all add: dot_def)

lemma dot_Cons [simp]: "dot (a # u) (x # v) = a * x + dot u v"
  by (simp add: dot_def)

lemma dot_replicate_zero [simp]: "dot (replicate N 0) v = 0"
  by (induction N arbitrary: v) (case_tac v; simp)+

lemma dot_update:
  "i < length r \<Longrightarrow> i < length v \<Longrightarrow> dot (r[i := a]) v = dot r v + (a - r ! i) * v ! i"
proof (induction r arbitrary: i v)
  case Nil
  then show ?case by simp
next
  case (Cons x r)
  then obtain y w where v: "v = y # w" by (cases v) auto
  show ?case
  proof (cases i)
    case 0
    then show ?thesis using v by (simp add: algebra_simps)
  next
    case (Suc k)
    then show ?thesis using v Cons by simp
  qed
qed

lemma dot_unit_row:
  assumes "i < length v"
  shows "dot ((replicate (length v) 0)[i := a]) v = a * v ! i"
  using assms by (simp add: dot_update)

lemma dot_difference_row:
  assumes "i < length v" "k < length v" "i \<noteq> k"
  shows "dot ((replicate (length v) 0)[i := 1, k := - 1]) v = v ! i - v ! k"
  using assms by (simp add: dot_update)

lemma pairs_length [simp]: "length (concat (map (\<lambda>i. [f i, h i]) [0..<n])) = 2 * n"
  by (induction n) simp_all

lemma pairs_nth:
  assumes "i < n"
  shows "concat (map (\<lambda>i. [f i, h i]) [0..<n]) ! (2 * i) = f i \<and>
         concat (map (\<lambda>i. [f i, h i]) [0..<n]) ! (2 * i + 1) = h i"
  using assms
proof (induction n)
  case 0
  then show ?case by simp
next
  case (Suc n)
  show ?case
  proof (cases "i < n")
    case True
    with Suc.IH show ?thesis by (simp add: nth_append)
  next
    case False
    with Suc.prems have "i = n" by simp
    then show ?thesis by (simp add: nth_append)
  qed
qed

lemma all_pairs:
  fixes n :: nat
  shows "(\<forall>t < 2 * n. P t) \<longleftrightarrow> (\<forall>i < n. P (2 * i) \<and> P (2 * i + 1))"
proof
  assume "\<forall>t < 2 * n. P t"
  then show "\<forall>i < n. P (2 * i) \<and> P (2 * i + 1)" by simp
next
  assume r: "\<forall>i < n. P (2 * i) \<and> P (2 * i + 1)"
  show "\<forall>t < 2 * n. P t"
  proof (intro allI impI)
    fix t :: nat assume t: "t < 2 * n"
    then have "t div 2 < n" by simp
    with r have "P (2 * (t div 2))" "P (2 * (t div 2) + 1)" by simp_all
    moreover have "t = 2 * (t div 2) \<or> t = 2 * (t div 2) + 1" by presburger
    ultimately show "P t" by metis
  qed
qed

lemma l1norm_step_rows:
  assumes "i < ncols A" "off + i < ncols A" "ncols b = 1"
  shows "l1norm_step off i (c, A, b) =
           Inr (c,
                \<lparr>ncols = ncols A,
                 rws = rws A @ [(replicate (ncols A) 0)[i := - 1],
                                (replicate (ncols A) 0)[i := 1, off + i := - 1]]\<rparr>,
                \<lparr>ncols = 1, rws = rws b @ [[0], [0]]\<rparr>)"
  using assms by (simp add: l1norm_step_def py_setitem_def np_vstack_def row_mat_def)

lemma add_l1norm_rows:
  assumes "lp_inv (c, A, b)" "rws c = [c0]" "ncols b = 1"
  shows "\<exists>c' A' b'. add_l1norm_constraints n l1 (c, A, b) = Inr (c', A', b') \<and>
           ncols c' = ncols c + n \<and> rws c' = [c0 @ replicate n l1] \<and>
           ncols A' = ncols A + n \<and> ncols b' = 1 \<and>
           rws A' = map2 (@) (rws A) (replicate (nrows A) (replicate n 0)) @
                    concat (map (\<lambda>i. [(replicate (ncols A + n) 0)[i := - 1],
                                       (replicate (ncols A + n) 0)[i := 1, ncols c + i := - 1]])
                              [0..<n]) \<and>
           rws b' = rws b @ concat (map (\<lambda>i. [[0], [0]]) [0..<n])"
proof -
  let ?c' = "\<lparr>ncols = ncols c + n, rws = [c0 @ replicate n l1]\<rparr>"
  let ?R0 = "map2 (@) (rws A) (replicate (nrows A) (replicate n 0))"
  let ?A0 = "\<lparr>ncols = ncols A + n, rws = ?R0\<rparr>"
  let ?rows = "\<lambda>i. [(replicate (ncols A + n) 0)[i := - 1],
                     (replicate (ncols A + n) 0)[i := 1, ncols c + i := - 1 :: real]]"
  let ?Q = "\<lambda>j t. \<exists>(A' :: mat) (b' :: mat).
              t = (?c', A', b') \<and> ncols A' = ncols A + n \<and> ncols b' = 1 \<and>
              rws A' = ?R0 @ concat (map ?rows [0..<j]) \<and>
              rws b' = rws b @ concat (map (\<lambda>i. [[0], [0]]) [0..<j])"
  have cA: "ncols A = ncols c" using assms(1) by (simp add: lp_inv_def)
  have c': "np_hstack c (scale l1 (np_ones 1 n)) = Inr ?c'"
    using assms(2) by (simp add: np_hstack_def nrows_def scale_def np_ones_def)
  have A0: "np_hstack A (np_zeros (nrows A) n) = Inr ?A0"
    by (simp add: np_hstack_def nrows_def np_zeros_def)
  have "\<exists>t'. for_each (l1norm_step (ncols c)) [0..<n] (?c', ?A0, b) = Inr t' \<and>
          ?Q (length [0..<n]) t'"
  proof (rule for_each_invariant)
    show "?Q 0 (?c', ?A0, b)" using assms(3) by simp
  next
    fix j s assume j: "j < length [0..<n]" and Q: "?Q j s"
    then obtain A' b' where s: "s = (?c', A', b')" "ncols A' = ncols A + n" "ncols b' = 1"
      "rws A' = ?R0 @ concat (map ?rows [0..<j])"
      "rws b' = rws b @ concat (map (\<lambda>i. [[0], [0]]) [0..<j])"
      by blast
    from j have jn: "j < n" by simp
    have "l1norm_step (ncols c) j (?c', A', b') =
            Inr (?c',
                 \<lparr>ncols = ncols A', rws = rws A' @ ?rows j\<rparr>,
                 \<lparr>ncols = 1, rws = rws b' @ [[0], [0]]\<rparr>)"
      using l1norm_step_rows[of j A' "ncols c" b' ?c'] jn s(2,3) cA by simp
    then show "\<exists>s'. l1norm_step (ncols c) ([0..<n] ! j) s = Inr s' \<and> ?Q (Suc j) s'"
      using s jn by simp
  qed
  then show ?thesis
    using c' A0 by (auto simp: add_l1norm_constraints_def Let_def)
qed

text \<open>
  Claim C2 as stated fails: in the LP that the tabular formulator composes for two states
  and two actions, rows 6 to 9 are the rows of the L1 block, columns 0 and 1 the true
  variables and columns 4 and 5 the auxiliary ones. The assignment \<open>x = [-0.5, 0.3]\<close>,
  \<open>aux = [0.5, 0.3]\<close> violates row 6, which is \<open>-x_0 \<le> 0\<close>.
\<close>

theorem l1norm_negative_counterexample:
  "compose_lp \<lparr>shape0 = 2, shape1 = 2, shape2 = 2, cells = [[[0, 1], [1, 0]], [[0, 1], [1, 0]]]\<rparr>
     0 1 1 Inr =
   Inr (\<lparr>ncols = 6, rws = [[0, 0, - 1, - 1, 1, 1]]\<rparr>,
        \<lparr>ncols = 6,
         rws = [[0, 0, 0, 0, 0, 0], [0, 0, 0, 0, 0, 0], [0, 0, 1, 0, 0, 0],
                [0, 0, 0, 1, 0, 0], [1, 0, 0, 0, 0, 0], [0, 1, 0, 0, 0, 0],
                [- 1, 0, 0, 0, 0, 0], [1, 0, 0, 0, - 1, 0],
                [0, - 1, 0, 0, 0, 0], [0, 1, 0, 0, 0, - 1]]\<rparr>,
        \<lparr>ncols = 1, rws = [[0], [0], [0], [0], [1], [1], [0], [0], [0], [0]]\<rparr>) \<and>
   \<not> row_holds
       \<lparr>ncols = 6,
         rws = [[0, 0, 0, 0, 0, 0], [0, 0, 0, 0, 0, 0], [0, 0, 1, 0, 0, 0],
                [0, 0, 0, 1, 0, 0], [1, 0, 0, 0, 0, 0], [0, 1, 0, 0, 0, 0],
                [- 1, 0, 0, 0, 0, 0], [1, 0, 0, 0, - 1, 0],
                [0, - 1, 0, 0, 0, 0], [0, 1, 0, 0, 0, - 1]]\<rparr>
       \<lparr>ncols = 1, rws = [[0], [0], [0], [0], [1], [1], [0], [0], [0], [0]]\<rparr>
       [- 1 / 2, 3 / 10, 0, 0, 1 / 2, 3 / 10] 6"
  by code_simp

text \<open>
  Claim C2, amended. Applied to a triple that satisfies the LP invariant and whose first
  \<open>n\<close> columns are the true variables, the L1 block appends \<open>2 * n\<close> rows, and these rows
  hold at an assignment \<open>v\<close> exactly when, for each true variable \<open>x_i = v ! i\<close> with its
  auxiliary variable \<open>aux_i = v ! (ncols c + i)\<close>, \<open>x_i \<ge> 0\<close> and \<open>aux_i \<ge> x_i\<close>. So any
  assignment with \<open>aux_i < |x_i|\<close> violates one of the appended rows, and so does any
  assignment with a negative \<open>x_i\<close>.
\<close>

theorem l1norm_rows_enforce:
  assumes "lp_inv (c, A, b)" and "rws c = [c0]" and "ncols b = 1"
    and "n \<le> ncols c" and "length v = ncols c + n"
  shows "\<exists>c' A' b'.
           add_l1norm_constraints n l1 (c, A, b) = Inr (c', A', b') \<and>
           nrows A' = nrows A + 2 * n \<and> nrows b' = nrows b + 2 * n \<and>
           ((\<forall>t < 2 * n. row_holds A' b' v (nrows A + t)) \<longleftrightarrow>
            (\<forall>i < n. 0 \<le> v ! i \<and> v ! i \<le> v ! (ncols c + i))) \<and>
           ((\<exists>i < n. v ! (ncols c + i) < \<bar>v ! i\<bar>) \<longrightarrow>
            (\<exists>t < 2 * n. \<not> row_holds A' b' v (nrows A + t)))"
proof -
  let ?R0 = "map2 (@) (rws A) (replicate (nrows A) (replicate n 0))"
  let ?r1 = "\<lambda>i. (replicate (ncols A + n) 0)[i := - 1 :: real]"
  let ?r2 = "\<lambda>i. (replicate (ncols A + n) 0)[i := 1, ncols c + i := - 1 :: real]"
  let ?rows = "concat (map (\<lambda>i. [?r1 i, ?r2 i]) [0..<n])"
  let ?zs = "concat (map (\<lambda>i. [[0 :: real], [0]]) [0..<n])"
  from add_l1norm_rows[OF assms(1-3), of n l1] obtain c' A' b' where
    run: "add_l1norm_constraints n l1 (c, A, b) = Inr (c', A', b')"
    and A': "rws A' = ?R0 @ ?rows" and b': "rws b' = rws b @ ?zs"
    by blast
  have cA: "ncols A = ncols c" and bA: "nrows b = nrows A"
    using assms(1) by (simp_all add: lp_inv_def)
  have lenR0: "length ?R0 = nrows A" by (simp add: nrows_def)
  have lenb: "length (rws b) = nrows A" using bA by (simp add: nrows_def)
  have lv: "length v = ncols A + n" using assms(5) cA by simp
  have hold1: "row_holds A' b' v (nrows A + 2 * i) \<longleftrightarrow> 0 \<le> v ! i" if "i < n" for i
  proof -
    have "rws A' ! (nrows A + 2 * i) = ?r1 i"
      using pairs_nth[OF that, of ?r1 ?r2] lenR0 by (simp add: A' nth_append)
    moreover have "rws b' ! (nrows A + 2 * i) = [0]"
      using pairs_nth[OF that, of "\<lambda>i. [0 :: real]" "\<lambda>i. [0]"] lenb
      by (simp add: b' nth_append)
    moreover have "dot (?r1 i) v = - 1 * v ! i"
      using dot_unit_row[of i v "- 1"] that lv by simp
    ultimately show ?thesis by (simp add: row_holds_def)
  qed
  have hold2: "row_holds A' b' v (nrows A + (2 * i + 1)) \<longleftrightarrow> v ! i \<le> v ! (ncols c + i)"
    if "i < n" for i
  proof -
    have "rws A' ! (nrows A + (2 * i + 1)) = ?r2 i"
      using pairs_nth[OF that, of ?r1 ?r2] lenR0 by (simp add: A' nth_append)
    moreover have "rws b' ! (nrows A + (2 * i + 1)) = [0]"
      using pairs_nth[OF that, of "\<lambda>i. [0 :: real]" "\<lambda>i. [0]"] lenb
      by (simp add: b' nth_append)
    moreover have "dot (?r2 i) v = v ! i - v ! (ncols c + i)"
      using dot_difference_row[of i v "ncols c + i"] that lv cA assms(4) by simp
    ultimately show ?thesis by (simp add: row_holds_def)
  qed
  have iff: "(\<forall>t < 2 * n. row_holds A' b' v (nrows A + t)) \<longleftrightarrow>
             (\<forall>i < n. 0 \<le> v ! i \<and> v ! i \<le> v ! (ncols c + i))"
    using all_pairs[of n "\<lambda>t. row_holds A' b' v (nrows A + t)"] hold1 hold2 by simp
  have viol: "\<exists>t < 2 * n. \<not> row_holds A' b' v (nrows A + t)"
    if "\<exists>i < n. v ! (ncols c + i) < \<bar>v ! i\<bar>"
  proof -
    from that obtain i where i: "i < n" "v ! (ncols c + i) < \<bar>v ! i\<bar>" by blast
    then have "\<not> (0 \<le> v ! i \<and> v ! i \<le> v ! (ncols c + i))" by auto
    with i(1) have "\<not> (\<forall>i < n. 0 \<le> v ! i \<and> v ! i \<le> v ! (ncols c + i))" by blast
    with iff show ?thesis by blast
  qed
  have "nrows A' = nrows A + 2 * n" "nrows b' = nrows b + 2 * n"
    using lenR0 by (simp_all add: nrows_def A' b')
  with run iff viol show ?thesis by blast
qed

theorem l1norm_rows_enforce_witness:
  "lp_inv (np_zeros 1 2, np_zeros 0 2, np_zeros 0 1) \<and>
   (\<exists>c' A' b'.
      add_l1norm_constraints 2 1 (np_zeros 1 2, np_zeros 0 2, np_zeros 0 1) = Inr (c', A', b') \<and>
      nrows A' = 4 \<and>
      row_holds A' b' [1 / 2, 3 / 10, 1 / 2, 3 / 10] 0 \<and>
      row_holds A' b' [1 / 2, 3 / 10, 1 / 2, 3 / 10] 1 \<and>
      row_holds A' b' [1 / 2, 3 / 10, 1 / 2, 3 / 10] 2 \<and>
      row_holds A' b' [1 / 2, 3 / 10, 1 / 2, 3 / 10] 3)"
proof -
  let ?v = "[1 / 2, 3 / 10, 1 / 2, 3 / 10 :: real]"
  have inv: "lp_inv (np_zeros 1 2, np_zeros 0 2, np_zeros 0 1)"
    by (simp add: lp_inv_def)
  have "\<exists>c' A' b'.
           add_l1norm_constraints 2 1 (np_zeros 1 2, np_zeros 0 2, np_zeros 0 1)
             = Inr (c', A', b') \<and>
           nrows A' = nrows (np_zeros 0 2) + 2 * 2 \<and> nrows b' = nrows (np_zeros 0 1) + 2 * 2 \<and>
           ((\<forall>t < 2 * 2. row_holds A' b' ?v (nrows (np_zeros 0 2) + t)) \<longleftrightarrow>
            (\<forall>i < 2. 0 \<le> ?v ! i \<and> ?v ! i \<le> ?v ! (ncols (np_zeros 1 2) + i))) \<and>
           ((\<exists>i < 2. ?v ! (ncols (np_zeros 1 2) + i) < \<bar>?v ! i\<bar>) \<longrightarrow>
            (\<exists>t < 2 * 2. \<not> row_holds A' b' ?v (nrows (np_zeros 0 2) + t)))"
    by (rule l1norm_rows_enforce[OF inv, of "[0, 0]"]) (simp_all add: np_zeros_def numeral_2_eq_2)
  then obtain c' A' b' where
    run: "add_l1norm_constraints 2 1 (np_zeros 1 2, np_zeros 0 2, np_zeros 0 1) = Inr (c', A', b')"
    and rows0: "nrows A' = nrows (np_zeros 0 2) + 2 * 2"
    and iff0: "(\<forall>t < 2 * 2. row_holds A' b' ?v (nrows (np_zeros 0 2) + t)) \<longleftrightarrow>
              (\<forall>i < 2. 0 \<le> ?v ! i \<and> ?v ! i \<le> ?v ! (ncols (np_zeros 1 2) + i))"
    by blast
  from rows0 have rows: "nrows A' = 4" by simp
  from iff0 have iff: "(\<forall>t < 4. row_holds A' b' ?v t) \<longleftrightarrow>
              (\<forall>i < 2. 0 \<le> ?v ! i \<and> ?v ! i \<le> ?v ! (2 + i))"
    by simp
  have "\<forall>i < 2. 0 \<le> ?v ! i \<and> ?v ! i \<le> ?v ! (2 + i)"
    by (simp add: less_Suc_eq numeral_2_eq_2)
  with iff have "\<forall>t < 4. row_holds A' b' ?v t" by blast
  then have "row_holds A' b' ?v 0" "row_holds A' b' ?v 1" "row_holds A' b' ?v 2"
    "row_holds A' b' ?v 3" by simp_all
  with inv run rows show ?thesis by blast
qed

subsection \<open>Shapes of the remaining blocks\<close>


lemma alpha_size_step_rows:
  assumes "i < ncols A" "ncols b = 1"
  shows "alpha_size_step i (c, A, b) =
           Inr (c,
                \<lparr>ncols = ncols A,
                 rws = rws A @ [(replicate (ncols A) 0)[i := 1],
                                (replicate (ncols A) 0)[i := - 1]]\<rparr>,
                \<lparr>ncols = 1, rws = rws b @ [[1], [1]]\<rparr>)"
  using assms by (simp add: alpha_size_step_def py_setitem_def np_vstack_def row_mat_def)

lemma add_alpha_size_constraints_rows:
  assumes "d \<le> ncols A" "ncols b = 1"
  shows "\<exists>A' b'. add_alpha_size_constraints d (c, A, b) = Inr (c, A', b') \<and>
           ncols A' = ncols A \<and> ncols b' = 1 \<and>
           rws A' = rws A @ concat (map (\<lambda>i. [(replicate (ncols A) 0)[i := 1],
                                               (replicate (ncols A) 0)[i := - 1]]) [0..<d]) \<and>
           rws b' = rws b @ concat (map (\<lambda>i. [[1], [1]]) [0..<d])"
proof -
  let ?rows = "\<lambda>i. [(replicate (ncols A) 0)[i := 1], (replicate (ncols A) 0)[i := - 1 :: real]]"
  let ?Q = "\<lambda>j t. \<exists>(A' :: mat) (b' :: mat). t = (c, A', b') \<and> ncols A' = ncols A \<and>
              ncols b' = 1 \<and> rws A' = rws A @ concat (map ?rows [0..<j]) \<and>
              rws b' = rws b @ concat (map (\<lambda>i. [[1], [1]]) [0..<j])"
  have "\<exists>t'. for_each alpha_size_step [0..<d] (c, A, b) = Inr t' \<and> ?Q (length [0..<d]) t'"
  proof (rule for_each_invariant)
    show "?Q 0 (c, A, b)" using assms(2) by simp
  next
    fix j s assume j: "j < length [0..<d]" and Q: "?Q j s"
    then obtain A' b' where s: "s = (c, A', b')" "ncols A' = ncols A" "ncols b' = 1"
      "rws A' = rws A @ concat (map ?rows [0..<j])"
      "rws b' = rws b @ concat (map (\<lambda>i. [[1], [1]]) [0..<j])"
      by blast
    from j assms(1) have "j < ncols A'" using s(2) by simp
    from alpha_size_step_rows[OF this s(3), of c]
    show "\<exists>s'. alpha_size_step ([0..<d] ! j) s = Inr s' \<and> ?Q (Suc j) s'"
      using s j by simp
  qed
  then show ?thesis by (auto simp: add_alpha_size_constraints_def)
qed




subsection \<open>The sampled costly-single-step block\<close>





subsection \<open>The rows of the sampled LP\<close>








subsection \<open>The LP invariant\<close>




subsection \<open>The outer loop of the trajectory formulator\<close>

lemma passes_Suc_end:
  "passes body (Suc j) \<sigma>0 = Some \<sigma> \<longleftrightarrow>
     (\<exists>\<sigma>'. passes body j \<sigma>0 = Some \<sigma>' \<and> body \<sigma>' = Inr (Inr \<sigma>))"
proof (induction j arbitrary: \<sigma>0)
  case 0
  show ?case by (auto split: sum.splits)
next
  case (Suc j)
  show ?case
  proof (cases "body \<sigma>0")
    case (Inl e)
    then show ?thesis by simp
  next
    case (Inr r)
    show ?thesis
    proof (cases r)
      case (Inl returned)
      with Inr show ?thesis by simp
    next
      case (Inr \<sigma>1)
      with \<open>body \<sigma>0 = Inr r\<close> have step: "body \<sigma>0 = Inr (Inr \<sigma>1)" by simp
      have "passes body (Suc (Suc j)) \<sigma>0 = passes body (Suc j) \<sigma>1"
        using step by simp
      also have "\<dots> = Some \<sigma> \<longleftrightarrow>
          (\<exists>\<sigma>'. passes body j \<sigma>1 = Some \<sigma>' \<and> body \<sigma>' = Inr (Inr \<sigma>))"
        by (rule Suc.IH)
      finally show ?thesis using step by simp
    qed
  qed
qed

lemma tlp_loop_returns:
  assumes "passes body j \<sigma>0 = Some \<sigma>" "body \<sigma> = Inr (Inl returned)" "j < fuel"
  shows "tlp_loop body fuel \<sigma>0 = Some (Inr returned)"
  using assms
proof (induction j arbitrary: \<sigma>0 fuel)
  case 0
  then obtain f where "fuel = Suc f" by (cases fuel) auto
  with 0 show ?case by simp
next
  case (Suc j)
  from Suc.prems(3) obtain f where f: "fuel = Suc f" "j < f" by (cases fuel) auto
  from Suc.prems(1) obtain \<sigma>1 where s1: "body \<sigma>0 = Inr (Inr \<sigma>1)" "passes body j \<sigma>1 = Some \<sigma>"
    by (auto split: sum.splits)
  from Suc.IH[OF s1(2) Suc.prems(2) f(2)] s1(1) f(1) show ?case by simp
qed

lemma norm_diff_lengths: "norm_diff u v = Inr delta \<Longrightarrow> length u = length v"
  by (simp add: norm_diff_def split: if_splits)

lemma tlp_iteration_break:
  assumes "tlp_iteration T phi gamma opt_pol p m H tol solver start_state ev \<sigma> = Inr (Inl returned)"
  shows "returned = (alpha \<sigma>, None) \<and>
         (\<exists>alpha_new delta. tlp_solve (length phi) p solver ev \<sigma> = Inr alpha_new \<and>
            norm_diff (alpha \<sigma>) alpha_new = Inr delta \<and> delta \<le> tol)"
proof -
  from assms obtain alpha_new delta where
    s: "tlp_solve (length phi) p solver ev \<sigma> = Inr alpha_new"
    and n: "norm_diff (alpha \<sigma>) alpha_new = Inr delta"
    and rest: "(if delta \<le> tol then Inr (Inl (alpha \<sigma>, None))
         else
           (let new_policy = opt_pol alpha_new in
            bind_err (mc_trajectories T new_policy m H start_state (gen \<sigma>)) (\<lambda>(trajectories, g').
            bind_err (emperical_policy_value phi gamma trajectories) (\<lambda>value_vector.
            bind_err (np_vstack (non_expert_policy_value_vectors \<sigma>) (row_mat value_vector)) (\<lambda>V.
            Inr (Inr \<lparr>alpha = alpha_new,
                  non_expert_policy_set = non_expert_policy_set \<sigma> @ [new_policy],
                  non_expert_policy_value_vectors = V,
                  gen = g'\<rparr>)))))) = Inr (Inl returned)"
    unfolding tlp_iteration_def bind_err_eq_Inr by blast
  show ?thesis
  proof (cases "delta \<le> tol")
    case True
    with rest s n show ?thesis by auto
  next
    case False
    with rest have False
      by (auto simp: Let_def bind_err_eq_Inr split: prod.splits)
    then show ?thesis ..
  qed
qed

lemma tlp_iteration_continue:
  assumes "tlp_iteration T phi gamma opt_pol p m H tol solver start_state ev \<sigma> = Inr (Inr \<sigma>')"
  shows "tlp_solve (length phi) p solver ev \<sigma> = Inr (alpha \<sigma>')"
  using assms
  by (auto simp: tlp_iteration_def bind_err_eq_Inr Let_def split: if_splits prod.splits)

lemma tlp_init_alpha:
  assumes "tlp_init zeta T S_bounds A phi gamma m H uniform choice g = Inr (start_state, v_E, \<sigma>0)"
  shows "alpha \<sigma>0 = map (\<lambda>v. v * 2 - 1) (fst (uniform g (length phi)))"
proof -
  obtain u g1 where u: "uniform g (length phi) = (u, g1)" by (cases "uniform g (length phi)")
  obtain policy0 g2 where r: "random_policy choice A S_bounds 20 g1 = (policy0, g2)"
    by (cases "random_policy choice A S_bounds 20 g1")
  from assms u r show ?thesis
    by (auto simp: tlp_init_def Let_def bind_err_eq_Inr split: list.splits if_splits)
qed

lemma expert_constraints_returned_shape:
  assumes "add_optimal_expert_constraints d k ev V p (np_zeros 1 d, np_zeros 0 d, np_zeros 0 1)
             = Inr (c1, A1, b1)"
  shows "rws c1 = [replicate d 0 @ replicate k 1] \<and> ncols A1 = d + k \<and> nrows A1 = 2 * k \<and>
         ncols b1 = 1 \<and> nrows b1 = 2 * k"
  using assms
  by (auto simp: add_optimal_expert_constraints_def np_hstack_def np_vstack_def broadcast_sub_def
      nrows_def np_zeros_def np_ones_def np_identity_def scale_def bind_err_eq_Inr
      split: if_splits)

lemma tlp_solve_bounded:
  assumes feas: "solver_feasible solver"
    and solve: "tlp_solve d p solver ev \<sigma> = Inr alpha_new"
  shows "\<forall>i < length alpha_new. \<bar>alpha_new ! i\<bar> \<le> 1"
proof (intro allI impI)
  fix i assume i: "i < length alpha_new"
  let ?k = "length (non_expert_policy_set \<sigma>)"
  from solve obtain c1 A1 b1 c A b c0 xs where
    t1: "add_optimal_expert_constraints d ?k ev (non_expert_policy_value_vectors \<sigma>) p
           (np_zeros 1 d, np_zeros 0 d, np_zeros 0 1) = Inr (c1, A1, b1)"
    and t2: "add_alpha_size_constraints d (c1, A1, b1) = Inr (c, A, b)"
    and c0: "first_row c = Inr c0"
    and xs: "res_x (solver c0 A b) = Some xs"
    and an: "alpha_new = take d xs"
    by (auto simp: tlp_solve_def bind_err_eq_Inr Let_def solution_prefix_def
        split: option.splits)
  from expert_constraints_returned_shape[OF t1]
  have c1: "rws c1 = [replicate d 0 @ replicate ?k 1]" and A1: "ncols A1 = d + ?k"
    and rA1: "nrows A1 = 2 * ?k" and b1: "ncols b1 = 1" and rb1: "nrows b1 = 2 * ?k"
    by simp_all
  let ?r1 = "\<lambda>i. (replicate (ncols A1) 0)[i := 1 :: real]"
  let ?r2 = "\<lambda>i. (replicate (ncols A1) 0)[i := - 1 :: real]"
  from add_alpha_size_constraints_rows[of d A1 b1 c1] A1 b1 t2
  have cc: "c = c1"
    and A: "rws A = rws A1 @ concat (map (\<lambda>i. [?r1 i, ?r2 i]) [0..<d])"
    and b: "rws b = rws b1 @ concat (map (\<lambda>i. [[1], [1]]) [0..<d])"
    by auto
  from c0 cc c1 have "c0 = replicate d 0 @ replicate ?k 1" by (simp add: first_row_def)
  then have lc0: "length c0 = d + ?k" by simp
  from feas xs have lxs: "length xs = length c0"
    and holds: "\<forall>j < nrows A. row_holds A b xs j"
    by (auto simp: solver_feasible_def)
  from i an have id: "i < d" by simp
  have nA: "nrows A = 2 * ?k + 2 * d" using A rA1 by (simp add: nrows_def)
  have lA1: "length (rws A1) = 2 * ?k" and lb1: "length (rws b1) = 2 * ?k"
    using rA1 rb1 by (simp_all add: nrows_def)
  have lv: "length xs = ncols A1" using lxs lc0 A1 by simp
  have ilv: "i < length xs" using id lv A1 by simp
  have up: "row_holds A b xs (2 * ?k + 2 * i) \<longleftrightarrow> xs ! i \<le> 1"
  proof -
    have "rws A ! (2 * ?k + 2 * i) = ?r1 i"
      using pairs_nth[OF id, of ?r1 ?r2] lA1 by (simp add: A nth_append)
    moreover have "rws b ! (2 * ?k + 2 * i) = [1]"
      using pairs_nth[OF id, of "\<lambda>i. [1 :: real]" "\<lambda>i. [1]"] lb1 by (simp add: b nth_append)
    moreover have "dot (?r1 i) xs = 1 * xs ! i"
      using dot_unit_row[OF ilv, of 1] lv by simp
    ultimately show ?thesis by (simp add: row_holds_def)
  qed
  have low: "row_holds A b xs (2 * ?k + (2 * i + 1)) \<longleftrightarrow> - xs ! i \<le> 1"
  proof -
    have "rws A ! (2 * ?k + (2 * i + 1)) = ?r2 i"
      using pairs_nth[OF id, of ?r1 ?r2] lA1 by (simp add: A nth_append)
    moreover have "rws b ! (2 * ?k + (2 * i + 1)) = [1]"
      using pairs_nth[OF id, of "\<lambda>i. [1 :: real]" "\<lambda>i. [1]"] lb1 by (simp add: b nth_append)
    moreover have "dot (?r2 i) xs = - 1 * xs ! i"
      using dot_unit_row[OF ilv, of "- 1"] lv by simp
    ultimately show ?thesis by (simp add: row_holds_def)
  qed
  have "2 * ?k + 2 * i < nrows A" "2 * ?k + (2 * i + 1) < nrows A"
    using id nA by simp_all
  with holds up low have "xs ! i \<le> 1" "- xs ! i \<le> 1" by blast+
  moreover have "alpha_new ! i = xs ! i" using an id by simp
  ultimately show "\<bar>alpha_new ! i\<bar> \<le> 1" by simp
qed

lemma passes_invariant:
  assumes "passes body j \<sigma>0 = Some \<sigma>" "P \<sigma>0"
    and "\<And>\<sigma> \<sigma>'. body \<sigma> = Inr (Inr \<sigma>') \<Longrightarrow> P \<sigma>'"
  shows "P \<sigma>"
proof (cases j)
  case 0
  with assms(1,2) show ?thesis by simp
next
  case (Suc j')
  with assms(1) obtain \<sigma>' where "body \<sigma>' = Inr (Inr \<sigma>)"
    using passes_Suc_end[of body j' \<sigma>0 \<sigma>] by blast
  then show ?thesis by (rule assms(3))
qed

lemma tlp_solve_length:
  assumes feas: "solver_feasible solver"
    and solve: "tlp_solve d p solver ev \<sigma> = Inr alpha_new"
  shows "length alpha_new = d"
proof -
  let ?k = "length (non_expert_policy_set \<sigma>)"
  from solve obtain c1 A1 b1 c A b c0 xs where
    t1: "add_optimal_expert_constraints d ?k ev (non_expert_policy_value_vectors \<sigma>) p
           (np_zeros 1 d, np_zeros 0 d, np_zeros 0 1) = Inr (c1, A1, b1)"
    and t2: "add_alpha_size_constraints d (c1, A1, b1) = Inr (c, A, b)"
    and c0: "first_row c = Inr c0"
    and xs: "res_x (solver c0 A b) = Some xs"
    and an: "alpha_new = take d xs"
    by (auto simp: tlp_solve_def bind_err_eq_Inr Let_def solution_prefix_def
        split: option.splits)
  from expert_constraints_returned_shape[OF t1]
  have c1: "rws c1 = [replicate d 0 @ replicate ?k 1]" and A1: "ncols A1 = d + ?k"
    and b1: "ncols b1 = 1"
    by simp_all
  from add_alpha_size_constraints_rows[of d A1 b1 c1] A1 b1 t2 have "c = c1" by auto
  with c0 c1 have "length c0 = d + ?k" by (auto simp: first_row_def)
  moreover from feas xs have "length xs = length c0" by (auto simp: solver_feasible_def)
  ultimately show ?thesis using an by simp
qed

lemma dot_zero_right [simp]: "dot r (replicate n 0) = 0"
proof (induction r arbitrary: n)
  case Nil
  show ?case by simp
next
  case (Cons a r)
  show ?case by (cases n) (simp_all add: Cons.IH)
qed

text \<open>
  Claim C4 as stated fails: here the solver's solution is always \<open>[1/4, 0]\<close>, so that
  \<open>alpha_new\<close>, its first coordinate, is \<open>[1/4]\<close>; the convergence test succeeds at the
  first pass (tolerance 1) and the function returns the vector \<open>[1/2]\<close> that \<open>alpha_new\<close>
  was compared with (the first draw, \<open>2 * (3/4) - 1\<close>), with \<^verbatim>\<open>None\<close> and no iteration
  count.
\<close>

theorem loop_returns_alpha_new_counterexample:
  "trajectory_linear_programming 1 [[([0], 0 :: nat)]] (\<lambda>(g :: unit) s a. ((s, True), g))
     [(0, 1)] [0] [\<lambda>s. 1] (1 / 2) (\<lambda>\<alpha> s. Inr 0) 2 1 1 1
     (\<lambda>g d. (replicate d (3 / 4), g)) (\<lambda>g A shape. (\<lambda>idx. 0, g)) ()
     (\<lambda>c A b. \<lparr>res_status = Optimal, res_x = Some [1 / 4, 0]\<rparr>)
   = Some (Inr ([1 / 2], None)) \<and>
   take 1 [1 / 4, 0 :: real] \<noteq> [1 / 2]"
proof -
  have "trajectory_linear_programming 1 [[([0], 0 :: nat)]] (\<lambda>(g :: unit) s a. ((s, True), g))
     [(0, 1)] [0] [\<lambda>s. 1] (1 / 2) (\<lambda>\<alpha> s. Inr 0) 2 1 1 1
     (\<lambda>g d. (replicate d (3 / 4), g)) (\<lambda>g A shape. (\<lambda>idx. 0, g)) ()
     (\<lambda>c A b. \<lparr>res_status = Optimal, res_x = Some [1 / 4, 0]\<rparr>)
   = Some (Inr ([1 / 2], None))"
    apply (simp add: trajectory_linear_programming_def tlp_init_def emperical_policy_value_def
        emperical_trajectory_value_def random_policy_def mc_trajectories_def mc_step_def
        state_as_index_tuple_def state_disc_index_def py_round_def row_mat_def)
    apply (simp add: tlp_iteration_def tlp_solve_def add_optimal_expert_constraints_def
        add_alpha_size_constraints_def alpha_size_step_def np_hstack_def np_vstack_def
        np_zeros_def np_ones_def np_identity_def nrows_def scale_def broadcast_sub_def
        py_setitem_def row_mat_def first_row_def solution_prefix_def norm_diff_def)
    done
  then show ?thesis by simp
qed

text \<open>
  Claim C4, amended. When the convergence test first succeeds, after \<open>j\<close> passes that
  did not leave the loop, the loop terminates (with any fuel above \<open>j\<close>) and the function
  returns as its vector \<open>alpha_prev\<close>, the vector that \<open>alpha_new\<close> was compared with: the
  first random draw when \<open>j = 0\<close>, the first \<open>d\<close> coordinates of the LP solution of the
  pass before otherwise. It has the length of \<open>alpha_new\<close> and lies within the tolerance of
  it; with a solver whose solutions satisfy the rows of the LP and first draws in \<open>[0, 1]\<close>
  it has length \<open>d\<close> and entries with \<open>|alpha_i| \<le> 1\<close>. No iteration count is returned.
\<close>

theorem loop_returns_previous_alpha:
  assumes "tlp_init zeta T S_bounds A phi gamma m H uniform choice g
             = Inr (start_state, v_E, \<sigma>0)"
    and "passes (tlp_iteration T phi gamma opt_pol p m H tol solver start_state v_E) j \<sigma>0
           = Some \<sigma>"
    and "tlp_iteration T phi gamma opt_pol p m H tol solver start_state v_E \<sigma>
           = Inr (Inl returned)"
    and "j < fuel"
  shows "trajectory_linear_programming fuel zeta T S_bounds A phi gamma opt_pol p m H tol
           uniform choice g solver = Some (Inr returned) \<and>
         fst returned = alpha \<sigma> \<and>
         (\<exists>alpha_new delta.
            tlp_solve (length phi) p solver v_E \<sigma> = Inr alpha_new \<and>
            norm_diff (alpha \<sigma>) alpha_new = Inr delta \<and> delta \<le> tol \<and>
            length (alpha \<sigma>) = length alpha_new) \<and>
         (j = 0 \<longrightarrow> alpha \<sigma> = map (\<lambda>v. v * 2 - 1) (fst (uniform g (length phi)))) \<and>
         (\<forall>j' \<sigma>'. j = Suc j' \<and>
             passes (tlp_iteration T phi gamma opt_pol p m H tol solver start_state v_E) j' \<sigma>0
               = Some \<sigma>' \<longrightarrow>
             tlp_solve (length phi) p solver v_E \<sigma>' = Inr (alpha \<sigma>)) \<and>
         (solver_feasible solver \<and>
          (\<forall>v \<in> set (fst (uniform g (length phi))). 0 \<le> v \<and> v \<le> 1) \<longrightarrow>
            length (alpha \<sigma>) = length phi \<and> (\<forall>i < length (alpha \<sigma>). \<bar>alpha \<sigma> ! i\<bar> \<le> 1))"
proof -
  let ?body = "tlp_iteration T phi gamma opt_pol p m H tol solver start_state v_E"
  have run: "trajectory_linear_programming fuel zeta T S_bounds A phi gamma opt_pol p m H tol
           uniform choice g solver = Some (Inr returned)"
    using tlp_loop_returns[OF assms(2,3,4)] assms(1)
    by (simp add: trajectory_linear_programming_def)
  from tlp_iteration_break[OF assms(3)] obtain alpha_new delta where
    ret: "returned = (alpha \<sigma>, None)"
    and solve: "tlp_solve (length phi) p solver v_E \<sigma> = Inr alpha_new"
    and nd: "norm_diff (alpha \<sigma>) alpha_new = Inr delta" and tol: "delta \<le> tol"
    by blast
  have len: "length (alpha \<sigma>) = length alpha_new" by (rule norm_diff_lengths[OF nd])
  have first: "alpha \<sigma> = map (\<lambda>v. v * 2 - 1) (fst (uniform g (length phi)))" if "j = 0"
    using that assms(2) tlp_init_alpha[OF assms(1)] by simp
  have prev: "tlp_solve (length phi) p solver v_E \<sigma>' = Inr (alpha \<sigma>)"
    if "j = Suc j' \<and> passes ?body j' \<sigma>0 = Some \<sigma>'" for j' \<sigma>'
  proof -
    from that assms(2) have "passes ?body (Suc j') \<sigma>0 = Some \<sigma>" by simp
    with that have "?body \<sigma>' = Inr (Inr \<sigma>)"
      using passes_Suc_end[of ?body j' \<sigma>0 \<sigma>] by auto
    then show ?thesis by (rule tlp_iteration_continue)
  qed
  have bound: "length (alpha \<sigma>) = length phi \<and> (\<forall>i < length (alpha \<sigma>). \<bar>alpha \<sigma> ! i\<bar> \<le> 1)"
    if "solver_feasible solver \<and>
        (\<forall>v \<in> set (fst (uniform g (length phi))). 0 \<le> v \<and> v \<le> 1)"
  proof -
    from that have feas: "solver_feasible solver"
      and u: "\<forall>v \<in> set (fst (uniform g (length phi))). 0 \<le> v \<and> v \<le> 1" by simp_all
    have "length (alpha \<sigma>) = length phi"
      using len tlp_solve_length[OF feas solve] by simp
    moreover have "\<forall>i < length (alpha \<sigma>). \<bar>alpha \<sigma> ! i\<bar> \<le> 1"
    proof (rule passes_invariant[OF assms(2), of "\<lambda>\<sigma>. \<forall>i < length (alpha \<sigma>). \<bar>alpha \<sigma> ! i\<bar> \<le> 1"])
      show "\<forall>i < length (alpha \<sigma>0). \<bar>alpha \<sigma>0 ! i\<bar> \<le> 1"
      proof (intro allI impI)
        fix i assume "i < length (alpha \<sigma>0)"
        then have i: "i < length (fst (uniform g (length phi)))"
          using tlp_init_alpha[OF assms(1)] by simp
        then have "fst (uniform g (length phi)) ! i \<in> set (fst (uniform g (length phi)))"
          by simp
        with u have "0 \<le> fst (uniform g (length phi)) ! i" "fst (uniform g (length phi)) ! i \<le> 1"
          by blast+
        then show "\<bar>alpha \<sigma>0 ! i\<bar> \<le> 1"
          using i tlp_init_alpha[OF assms(1)] by simp
      qed
    next
      fix \<sigma>1 \<sigma>2 assume "?body \<sigma>1 = Inr (Inr \<sigma>2)"
      then have "tlp_solve (length phi) p solver v_E \<sigma>1 = Inr (alpha \<sigma>2)"
        by (rule tlp_iteration_continue)
      from tlp_solve_bounded[OF feas this]
      show "\<forall>i < length (alpha \<sigma>2). \<bar>alpha \<sigma>2 ! i\<bar> \<le> 1" .
    qed
    ultimately show ?thesis by simp
  qed
  from run ret solve nd tol len first prev bound show ?thesis by auto
qed

lemma zero_solver_feasible:
  "solver_feasible (\<lambda>c A b. if \<forall>j < nrows A. 0 \<le> rws b ! j ! 0
                              then \<lparr>res_status = Optimal, res_x = Some (replicate (length c) 0)\<rparr>
                              else \<lparr>res_status = Infeasible, res_x = None\<rparr>)"
  by (simp add: solver_feasible_def row_holds_def)

theorem loop_returns_previous_alpha_witness:
  "solver_feasible (\<lambda>c A b. if \<forall>j < nrows A. 0 \<le> rws b ! j ! 0
                              then \<lparr>res_status = Optimal, res_x = Some (replicate (length c) 0)\<rparr>
                              else \<lparr>res_status = Infeasible, res_x = None\<rparr>) \<and>
   trajectory_linear_programming 2 [[([0], 0 :: nat)]] (\<lambda>(g :: unit) s a. ((s, True), g))
     [(0, 1)] [0] [\<lambda>s. 1] (1 / 2) (\<lambda>\<alpha> s. Inr 0) 2 1 1 (1 / 4)
     (\<lambda>g d. (replicate d (3 / 4), g)) (\<lambda>g A shape. (\<lambda>idx. 0, g)) ()
     (\<lambda>c A b. if \<forall>j < nrows A. 0 \<le> rws b ! j ! 0
               then \<lparr>res_status = Optimal, res_x = Some (replicate (length c) 0)\<rparr>
               else \<lparr>res_status = Infeasible, res_x = None\<rparr>)
   = Some (Inr ([0], None))"
proof -
  let ?S = "\<lambda>(c :: real list) (A :: mat) (b :: mat).
              if \<forall>j < nrows A. 0 \<le> rws b ! j ! 0
              then \<lparr>res_status = Optimal, res_x = Some (replicate (length c) (0 :: real))\<rparr>
              else \<lparr>res_status = Infeasible, res_x = None\<rparr>"
  let ?T = "\<lambda>(g :: unit) (s :: state) (a :: nat). ((s, True), g)"
  let ?phi = "[\<lambda>s :: state. 1 :: real]"
  let ?opt = "\<lambda>(\<alpha> :: real list) (s :: state). (Inr 0 :: error + nat)"
  let ?uniform = "\<lambda>(g :: unit) d. (replicate d (3 / 4 :: real), g)"
  let ?choice = "\<lambda>(g :: unit) (A :: nat list) (shape :: nat list). (\<lambda>idx :: nat list. 0 :: nat, g)"
  let ?zeta = "[[([0 :: real], 0 :: nat)]]"
  let ?body = "tlp_iteration ?T ?phi (1 / 2) ?opt 2 1 1 (1 / 4) ?S [0] [1]"
  have feas: "solver_feasible ?S" by (rule zero_solver_feasible)
  obtain \<sigma>0 where init: "tlp_init ?zeta ?T [(0, 1)] [0] ?phi (1 / 2) 1 1 ?uniform ?choice ()
                            = Inr ([0], [1], \<sigma>0)"
    and s0: "alpha \<sigma>0 = [1 / 2]" "length (non_expert_policy_set \<sigma>0) = 1"
      "non_expert_policy_value_vectors \<sigma>0 = \<lparr>ncols = 1, rws = [[1]]\<rparr>" "gen \<sigma>0 = ()"
    by (simp add: tlp_init_def emperical_policy_value_def emperical_trajectory_value_def
        random_policy_def mc_trajectories_def mc_step_def state_as_index_tuple_def
        state_disc_index_def py_round_def row_mat_def)
  have all4: "\<And>P. (\<forall>j < Suc (Suc (Suc (Suc 0))). P j) \<longleftrightarrow> P 0 \<and> P 1 \<and> P 2 \<and> P 3"
    by (simp add: All_less_Suc eval_nat_numeral conj_ac)
  have solve0: "tlp_solve (length ?phi) 2 ?S [1] \<sigma>0 = Inr [0]"
    using s0
    by (simp add: tlp_solve_def add_optimal_expert_constraints_def
        add_alpha_size_constraints_def alpha_size_step_def np_hstack_def np_vstack_def
        np_zeros_def np_ones_def np_identity_def nrows_def scale_def broadcast_sub_def
        py_setitem_def row_mat_def first_row_def solution_prefix_def all4)
  obtain \<sigma>1 where step: "?body \<sigma>0 = Inr (Inr \<sigma>1)"
    and s1: "alpha \<sigma>1 = [0]" "length (non_expert_policy_set \<sigma>1) = 2"
      "non_expert_policy_value_vectors \<sigma>1 = \<lparr>ncols = 1, rws = [[1], [1]]\<rparr>"
    using solve0 s0
    by (simp add: tlp_iteration_def norm_diff_def mc_trajectories_def mc_step_def
        emperical_policy_value_def emperical_trajectory_value_def np_vstack_def row_mat_def)
  have all6: "\<And>P. (\<forall>j < Suc (Suc (Suc (Suc (Suc (Suc 0))))). P j) \<longleftrightarrow>
                    P 0 \<and> P 1 \<and> P 2 \<and> P 3 \<and> P 4 \<and> P 5"
    by (simp add: All_less_Suc eval_nat_numeral conj_ac)
  have solve1: "tlp_solve (length ?phi) 2 ?S [1] \<sigma>1 = Inr [0]"
    using s1
    by (simp add: tlp_solve_def add_optimal_expert_constraints_def
        add_alpha_size_constraints_def alpha_size_step_def np_hstack_def np_vstack_def
        np_zeros_def np_ones_def np_identity_def nrows_def scale_def broadcast_sub_def
        py_setitem_def row_mat_def first_row_def solution_prefix_def all6 numeral_2_eq_2)
  have brk: "?body \<sigma>1 = Inr (Inl (alpha \<sigma>1, None))"
    using solve1 s1 by (simp add: tlp_iteration_def norm_diff_def)
  have pass: "passes ?body 1 \<sigma>0 = Some \<sigma>1"
    using step by simp
  from loop_returns_previous_alpha[OF init pass brk, of 2] s1(1)
  have "trajectory_linear_programming 2 ?zeta ?T [(0, 1)] [0] ?phi (1 / 2) ?opt 2 1 1 (1 / 4)
          ?uniform ?choice () ?S = Some (Inr ([0], None))"
    by simp
  with feas show ?thesis by blast
qed

end
